theory Spec2Isabelle
  imports Main "HOL-Library.Sublist"
begin

section \<open>The aicommits command (src/commands/aicommits.ts)\<close>

text \<open>
  The command is one asynchronous function: a straight sequence of awaited calls to
  collaborators (git, the configuration loader, the terminal prompts, the text-generation
  service), with an early \<open>return\<close> wherever a prompt is cancelled, two \<open>throw\<close>s
  of its own, one \<open>try ... finally\<close> and one \<open>.catch\<close> handler around the whole
  body.

  The model makes every effect explicit. A run produces the list of the calls it made, in
  order (each with its arguments and with what it gave back), and the way the process
  ends. What the collaborators answer is not decided by this file: it is the parameter
  \<open>env\<close> of the run, so every theorem below holds for all answers.

  JavaScript strings are modelled as \<open>string\<close>; a character outside ASCII stands as the
  bytes of its UTF-8 encoding.
\<close>

subsection \<open>Strings\<close>

definition newline :: string where
  "newline = [CHR 0x0A]"

definition bug :: string where \<comment> \<open>U+1F41B\<close>
  "bug = [CHR 0xF0, CHR 0x9F, CHR 0x90, CHR 0x9B]"

definition hammer :: string where \<comment> \<open>U+1F528\<close>
  "hammer = [CHR 0xF0, CHR 0x9F, CHR 0x94, CHR 0xA8]"

definition memo :: string where \<comment> \<open>U+1F4DD\<close>
  "memo = [CHR 0xF0, CHR 0x9F, CHR 0x93, CHR 0x9D]"

definition palette :: string where \<comment> \<open>U+1F3A8\<close>
  "palette = [CHR 0xF0, CHR 0x9F, CHR 0x8E, CHR 0xA8]"

definition rocket :: string where \<comment> \<open>U+1F680\<close>
  "rocket = [CHR 0xF0, CHR 0x9F, CHR 0x9A, CHR 0x80]"

definition fire :: string where \<comment> \<open>U+1F525\<close>
  "fire = [CHR 0xF0, CHR 0x9F, CHR 0x94, CHR 0xA5]"

definition siren :: string where \<comment> \<open>U+1F6A8\<close>
  "siren = [CHR 0xF0, CHR 0x9F, CHR 0x9A, CHR 0xA8]"

definition lock :: string where \<comment> \<open>U+1F512\<close>
  "lock = [CHR 0xF0, CHR 0x9F, CHR 0x94, CHR 0x92]"

definition wrench :: string where \<comment> \<open>U+1F527\<close>
  "wrench = [CHR 0xF0, CHR 0x9F, CHR 0x94, CHR 0xA7]"

definition check_mark :: string where \<comment> \<open>U+2714\<close>
  "check_mark = [CHR 0xE2, CHR 0x9C, CHR 0x94]"

definition cross_mark :: string where \<comment> \<open>U+2716\<close>
  "cross_mark = [CHR 0xE2, CHR 0x9C, CHR 0x96]"

text \<open>
  The longer messages of the command, named: each stands where the source has the literal.
\<close>

definition detecting_message :: string where \<comment> \<open>lines 48 and 52\<close>
  "detecting_message = ''Detecting staged files''"

definition no_staged_message :: string where \<comment> \<open>line 53\<close>
  "no_staged_message =
     ''No staged changes found. Stage your changes manually, or automatically stage all changes with the `--all` flag.''"

definition note_question :: string where \<comment> \<open>line 68\<close>
  "note_question = ''Please enter any background information you would like to pass on to the AI.''"

definition prefix_question :: string where \<comment> \<open>line 76\<close>
  "prefix_question = ''Please select a prefix for the commit message.''"

definition analyzing_message :: string where \<comment> \<open>line 96\<close>
  "analyzing_message = ''The AI is analyzing your changes''"

definition background_label :: string where \<comment> \<open>line 99\<close>
  "background_label = ''Background information provided from user: ''"

definition no_messages_message :: string where \<comment> \<open>line 117\<close>
  "no_messages_message = ''No commit messages were generated. Try again.''"

definition confirm_question :: string where \<comment> \<open>line 126\<close>
  "confirm_question = ''Use this commit message?''"

definition pick_question :: string where \<comment> \<open>line 144\<close>
  "pick_question = ''Pick a commit message to use: ''"

definition committed_message :: string where \<comment> \<open>line 160, after the check mark\<close>
  "committed_message = '' Successfully committed!''"

text \<open>\<open>Array.prototype.join\<close> on an array of strings.\<close>

fun join :: "string \<Rightarrow> string list \<Rightarrow> string" where
  "join sep [] = []"
| "join sep [x] = x"
| "join sep (x # y # ys) = x @ sep @ join sep (y # ys)"

text \<open>
  \<open>a || b\<close> on values that are a string or \<open>undefined\<close>: the left operand when it is
  truthy (a non-empty string), the right operand otherwise.
\<close>

definition or_else :: "string option \<Rightarrow> string option \<Rightarrow> string option" where
  "or_else a b = (case a of None \<Rightarrow> b | Some s \<Rightarrow> if s = [] then b else Some s)"

subsection \<open>The prefix table (lines 17-29)\<close>

text \<open>
  The keys of \<open>commitPrefixes\<close>. The prefix prompt is typed to return one of them (or
  the cancel symbol), and its options carry exactly these values.
\<close>

datatype prefix =
  NoPrefix | Entrust | Fix | Chore | Docs | Style | Feat | Perf | Test | Security | Refactor

text \<open>The key as the string the source compares against.\<close>

fun prefix_key :: "prefix \<Rightarrow> string" where
  "prefix_key NoPrefix = ''''"
| "prefix_key Entrust = ''entrust''"
| "prefix_key Fix = ''fix''"
| "prefix_key Chore = ''chore''"
| "prefix_key Docs = ''docs''"
| "prefix_key Style = ''style''"
| "prefix_key Feat = ''feat''"
| "prefix_key Perf = ''perf''"
| "prefix_key Test = ''test''"
| "prefix_key Security = ''security''"
| "prefix_key Refactor = ''refactor''"

fun commitPrefixes :: "prefix \<Rightarrow> string" where
  "commitPrefixes NoPrefix = ''''"
| "commitPrefixes Entrust = ''''"
| "commitPrefixes Fix = bug @ '' fix''"
| "commitPrefixes Chore = hammer @ '' chore''"
| "commitPrefixes Docs = memo @ '' docs''"
| "commitPrefixes Style = palette @ '' style''"
| "commitPrefixes Feat = rocket @ '' feat''"
| "commitPrefixes Perf = fire @ '' perf''"
| "commitPrefixes Test = siren @ '' test''"
| "commitPrefixes Security = lock @ '' security''"
| "commitPrefixes Refactor = wrench @ '' refactor''"

text \<open>
  Lines 124 and 155, the same expression on both paths:
  \<^verbatim>\<open>(prefix === 'entrust' || prefix === '') || (message = `${commitPrefixes[prefix]}: ${message}`)\<close>
  The function gives the value of \<open>message\<close> after it.
\<close>

definition decorate :: "prefix \<Rightarrow> string \<Rightarrow> string" where
  "decorate p message =
     (if prefix_key p = ''entrust'' \<or> prefix_key p = '''' then message
      else commitPrefixes p @ '': '' @ message)"

subsection \<open>Values exchanged with the collaborators\<close>

text \<open>A thrown value: the \<open>KnownError\<close> class of the repository, or any other error.\<close>

datatype error = KnownError string | Error string

fun message :: "error \<Rightarrow> string" where
  "message (KnownError m) = m"
| "message (Error m) = m"

text \<open>
  What a prompt resolves to: the cancel symbol (\<open>isCancel\<close>) or a value. For the text
  prompt the value is what the user typed; an empty submission is the empty string (the
  source only tests it for truthiness). For a selection it is the \<open>value\<close> of the
  option the user chose.
\<close>

datatype 'a prompt_result = Cancel | Value 'a

fun isCancel :: "'a prompt_result \<Rightarrow> bool" where
  "isCancel Cancel = True"
| "isCancel (Value _) = False"

fun map_result :: "('a \<Rightarrow> 'b) \<Rightarrow> 'a prompt_result \<Rightarrow> 'b prompt_result" where
  "map_result f Cancel = Cancel"
| "map_result f (Value v) = Value (f v)"

text \<open>
  JavaScript numbers are not modelled: the only thing the command does with one is
  \<open>toString()\<close>, which is a parameter of the run.
\<close>

typedecl number

record args =
  generate :: "number option"
  excludeFiles :: "string list"
  stageAll :: bool
  commitType :: "string option"
  rawArgv :: "string list"

record staged =
  files :: "string list"
  diff :: string

text \<open>The object handed to \<open>getConfig\<close> (lines 60-65).\<close>

record cli_config =
  cfg_OPENAI_KEY :: "string option"
  cfg_proxy :: "string option"
  cfg_generate :: "string option"
  cfg_type :: "string option"

datatype stdio = Pipe | Inherit

datatype spinner = DetectingFiles | S

datatype select_option = SelectOption string string "string option"
  \<comment> \<open>label, value, hint\<close>

datatype prompt = BgInfo | Prefix | Confirmed | Selected
  \<comment> \<open>the four prompts, by the variable that receives the answer\<close>

text \<open>
  One entry per call that reaches the outside, with its arguments and, last, what the call
  gave back. The type \<open>'c\<close> is the configuration object that \<open>getConfig\<close> resolves to
  (its declaration is in utils/config.ts); the generation call reads its fields
  \<open>OPENAI_KEY\<close>, \<open>model\<close>, \<open>locale\<close>, \<open>generate\<close>, \<open>max-length\<close>, \<open>type\<close>,
  \<open>timeout\<close> and \<open>proxy\<close>, so the entry for that call carries the object, the diff and
  the instruction string.
\<close>

datatype 'c event =
    Intro string
  | Outro string
  | SpinnerStart spinner string
  | SpinnerStop spinner string
  | AssertGitRepo "error option"
  | Execa string "string list" stdio "error option"
  | GetStagedDiff "string list" "error + staged option"
  | GetConfig cli_config "error + 'c"
  | TextPrompt prompt string string "string prompt_result"
  | SelectPrompt prompt string "select_option list" "string option" "string prompt_result"
  | GenerateCommitMessage 'c string string "error + string list"
  | HandleCliError error

text \<open>
  The answers of the collaborators in one run. Each collaborator is called at most once
  in a run, so one answer each is enough; \<open>None\<close> for a call with no result means that
  it resolved, \<open>Some err\<close> or \<open>Inl err\<close> that it rejected with \<open>err\<close>.
\<close>

record 'c env =
  process_env :: "string \<Rightarrow> string option"
  toString :: "number \<Rightarrow> string"
  black :: "string \<Rightarrow> string"
  dim :: "string \<Rightarrow> string"
  green :: "string \<Rightarrow> string"
  red :: "string \<Rightarrow> string"
  bgCyan :: "string \<Rightarrow> string"
  getDetectedMessage :: "string list \<Rightarrow> string"
  assertGitRepo_r :: "error option"
  gitAdd_r :: "error option"
  getStagedDiff_r :: "error + staged option"
  getConfig_r :: "error + 'c"
  bgInfo_r :: "string prompt_result"
  prefix_r :: "prefix prompt_result"
  generateCommitMessage_r :: "error + string list"
  confirmed_r :: "string prompt_result"
  selected_r :: "string prompt_result"
  regenerate_r :: "error option"
  commit_r :: "error option"

subsection \<open>Control flow of an async function\<close>

text \<open>
  A piece of the body either goes on with a value, or leaves the function by
  \<open>return\<close>, or throws.
\<close>

datatype 'a step = Next 'a | Return | Throw error

type_synonym ('c, 'a) io = "'c event list \<times> 'a step"

definition bind :: "('c, 'a) io \<Rightarrow> ('a \<Rightarrow> ('c, 'b) io) \<Rightarrow> ('c, 'b) io" where
  "bind m f =
     (case m of
        (t, Next x) \<Rightarrow> (case f x of (t', r) \<Rightarrow> (t @ t', r))
      | (t, Return) \<Rightarrow> (t, Return)
      | (t, Throw err) \<Rightarrow> (t, Throw err))"

definition emit :: "'c event \<Rightarrow> ('c, unit) io" where
  "emit ev = ([ev], Next ())"

definition leave :: "('c, 'a) io" where
  "leave = ([], Return)"

definition throw :: "error \<Rightarrow> ('c, 'a) io" where
  "throw err = ([], Throw err)"

text \<open>An awaited call with no result: it resolves or rejects.\<close>

definition await_unit :: "'c event \<Rightarrow> error option \<Rightarrow> ('c, unit) io" where
  "await_unit ev r = ([ev], case r of None \<Rightarrow> Next () | Some err \<Rightarrow> Throw err)"

text \<open>An awaited call with a result.\<close>

definition await :: "'c event \<Rightarrow> error + 'a \<Rightarrow> ('c, 'a) io" where
  "await ev r = ([ev], case r of Inr x \<Rightarrow> Next x | Inl err \<Rightarrow> Throw err)"

text \<open>\<open>try { m } finally { ev }\<close>: the event happens however \<open>m\<close> ends.\<close>

definition try_finally :: "('c, 'a) io \<Rightarrow> 'c event \<Rightarrow> ('c, 'a) io" where
  "try_finally m ev = (case m of (t, r) \<Rightarrow> (t @ [ev], r))"

definition execa :: "string \<Rightarrow> string list \<Rightarrow> stdio \<Rightarrow> error option \<Rightarrow> ('c, unit) io" where
  "execa file arguments io r = await_unit (Execa file arguments io r) r"

text \<open>The prompts do not reject; they resolve to the cancel symbol or to a value.\<close>

definition select ::
  "prompt \<Rightarrow> string \<Rightarrow> select_option list \<Rightarrow> string option \<Rightarrow> 'a prompt_result
    \<Rightarrow> ('a \<Rightarrow> string) \<Rightarrow> ('c, 'a prompt_result) io" where
  "select p msg options initialValue r val =
     ([SelectPrompt p msg options initialValue (map_result val r)], Next r)"

definition text_prompt :: "prompt \<Rightarrow> string \<Rightarrow> string \<Rightarrow> string prompt_result
    \<Rightarrow> ('c, string prompt_result) io" where
  "text_prompt p msg placeholder r = ([TextPrompt p msg placeholder r], Next r)"

subsection \<open>The body, from its end to its start\<close>

text \<open>Lines 158-160. \<open>execa\<close> runs with its default \<open>stdio\<close>, \<open>pipe\<close>.\<close>

definition commit :: "args \<Rightarrow> 'c env \<Rightarrow> string \<Rightarrow> ('c, unit) io" where
  "commit a e msg =
     bind (execa ''git'' ([''commit'', ''-m'', msg] @ rawArgv a) Pipe (commit_r e)) (\<lambda>_.
     emit (Outro (green e check_mark @ committed_message)))"

definition confirm_options :: "select_option list" where
  "confirm_options =
     [SelectOption ''Yes'' ''yes'' None,
      SelectOption ''No, regenerate'' ''regenerate'' None,
      SelectOption ''No, cancel commit'' ''cancel'' None]"

text \<open>
  Lines 120-156, for a non-empty list of messages. With one message,
  \<open>[message] = messages\<close> takes it; \<open>initialValue: 'yes'\<close> is the fourth argument of
  the confirmation, and the pick has none.
\<close>

definition pick :: "args \<Rightarrow> 'c env \<Rightarrow> prefix \<Rightarrow> string list \<Rightarrow> ('c, unit) io" where
  "pick a e p messages =
     (if length messages = 1 then
        (let msg = decorate p (hd messages) in
         bind (select Confirmed
                 (confirm_question @ newline @ newline @ ''   '' @ msg @ newline)
                 confirm_options (Some ''yes'') (confirmed_r e) id) (\<lambda>confirmed.
         if confirmed = Value ''cancel'' \<or> isCancel confirmed then
           bind (emit (Outro ''Commit cancelled'')) (\<lambda>_. leave)
         else if confirmed = Value ''regenerate'' then
           bind (execa ''aim'' (rawArgv a) Inherit (regenerate_r e)) (\<lambda>_. leave)
         else commit a e msg))
      else
        bind (select Selected
                (pick_question @ dim e ''(Ctrl+c to exit)'')
                (map (\<lambda>v. SelectOption v v None) messages) None (selected_r e) id) (\<lambda>selected.
        case selected of
          Cancel \<Rightarrow> bind (emit (Outro ''Commit cancelled'')) (\<lambda>_. leave)
        | Value v \<Rightarrow> commit a e (decorate p v)))"

text \<open>Line 99.\<close>

definition bgInfoText :: "string \<Rightarrow> string" where
  "bgInfoText bgInfo =
     (if bgInfo \<noteq> [] then background_label @ bgInfo else [])"

definition directive :: string where
  "directive =
     ''The commit message must begin with an emoji and prefix that best describes the change. (e.g. ''
     @ bug @ '' fix: bug in something.js file where processing does not stop)''"

text \<open>Line 105, the fifth argument of the generation call.\<close>

definition instruction :: "string \<Rightarrow> prefix \<Rightarrow> string" where
  "instruction bgInfo p =
     (if prefix_key p = ''entrust'' then bgInfoText bgInfo @ newline @ directive
      else bgInfoText bgInfo)"

text \<open>
  Lines 95-118. The spinner is stopped in the \<open>finally\<close> block; the test of the length
  comes after it.
\<close>

definition analyze ::
  "args \<Rightarrow> 'c env \<Rightarrow> staged \<Rightarrow> 'c \<Rightarrow> string \<Rightarrow> prefix \<Rightarrow> ('c, unit) io" where
  "analyze a e st config bgInfo p =
     bind (emit (SpinnerStart S analyzing_message)) (\<lambda>_.
     bind (try_finally
             (await (GenerateCommitMessage config (diff st) (instruction bgInfo p)
                       (generateCommitMessage_r e))
                (generateCommitMessage_r e))
             (SpinnerStop S ''Changes analyzed'')) (\<lambda>messages.
     if length messages = 0 then
       throw (KnownError no_messages_message)
     else pick a e p messages))"

definition prefix_options :: "select_option list" where
  "prefix_options =
     [SelectOption ''None'' '''' None,
      SelectOption ''Entrust'' ''entrust'' (Some ''Entrust the AI to generate a commit message''),
      SelectOption (bug @ '' fix'') ''fix'' (Some ''Fixes a bug''),
      SelectOption (hammer @ '' chore'') ''chore''
        (Some ''Changes to the build process or auxiliary tools and libraries such as documentation generation''),
      SelectOption (memo @ '' docs'') ''docs'' (Some ''Documentation only changes''),
      SelectOption (palette @ '' style'') ''style''
        (Some ''Changes that do not affect the meaning of the code (white-space, formatting, missing semi-colons, etc)''),
      SelectOption (rocket @ '' feat'') ''feat'' (Some ''Adds a new feature''),
      SelectOption (fire @ '' perf'') ''perf'' (Some ''Improves performance''),
      SelectOption (siren @ '' test'') ''test'' (Some ''Adds or modifies tests''),
      SelectOption (lock @ '' security'') ''security'' (Some ''Fixes a security issue''),
      SelectOption (wrench @ '' refactor'') ''refactor''
        (Some ''A code change that neither fixes a bug nor adds a feature'')]"

text \<open>Lines 67-94: the note, then the prefix, each with its early \<open>return\<close>.\<close>

definition collect :: "args \<Rightarrow> 'c env \<Rightarrow> staged \<Rightarrow> 'c \<Rightarrow> ('c, unit) io" where
  "collect a e st config =
     bind (text_prompt BgInfo note_question ''fixed typo'' (bgInfo_r e)) (\<lambda>bgInfo.
     case bgInfo of
       Cancel \<Rightarrow> bind (emit (Outro ''Commit cancelled'')) (\<lambda>_. leave)
     | Value note \<Rightarrow>
         bind (select Prefix prefix_question
                 prefix_options None (prefix_r e) prefix_key) (\<lambda>prefix.
         case prefix of
           Cancel \<Rightarrow> bind (emit (Outro ''Commit cancelled'')) (\<lambda>_. leave)
         | Value p \<Rightarrow> analyze a e st config note p))"

text \<open>Lines 59-65.\<close>

definition config_request :: "args \<Rightarrow> 'c env \<Rightarrow> cli_config" where
  "config_request a e =
     \<lparr> cfg_OPENAI_KEY = or_else (process_env e ''OPENAI_KEY'') (process_env e ''OPENAI_API_KEY''),
       cfg_proxy =
         or_else (or_else (or_else (process_env e ''https_proxy'') (process_env e ''HTTPS_PROXY''))
                    (process_env e ''http_proxy''))
           (process_env e ''HTTP_PROXY''),
       cfg_generate = map_option (toString e) (generate a),
       cfg_type = commitType a \<rparr>"

text \<open>Lines 56-57, the template string that closes the first spinner.\<close>

definition detected_message :: "'c env \<Rightarrow> staged \<Rightarrow> string" where
  "detected_message e st =
     getDetectedMessage e (files st) @ '':'' @ newline
     @ join newline (map (\<lambda>file. ''     '' @ file) (files st))"

text \<open>
  Lines 38-65, then the rest. \<open>getStagedDiff\<close> resolves to the staged files and their
  diff, or to nothing (\<open>!staged\<close>).
\<close>

definition body :: "args \<Rightarrow> 'c env \<Rightarrow> ('c, unit) io" where
  "body a e =
     bind (emit (Intro (bgCyan e (black e '' aicommits '')))) (\<lambda>_.
     bind (await_unit (AssertGitRepo (assertGitRepo_r e)) (assertGitRepo_r e)) (\<lambda>_.
     bind (if stageAll a then execa ''git'' [''add'', ''--update''] Pipe (gitAdd_r e)
           else ([], Next ())) (\<lambda>_.
     bind (emit (SpinnerStart DetectingFiles detecting_message)) (\<lambda>_.
     bind (await (GetStagedDiff (excludeFiles a) (getStagedDiff_r e)) (getStagedDiff_r e))
       (\<lambda>staged.
     case staged of
       None \<Rightarrow>
         bind (emit (SpinnerStop DetectingFiles detecting_message)) (\<lambda>_.
         throw (KnownError no_staged_message))
     | Some st \<Rightarrow>
         bind (emit (SpinnerStop DetectingFiles (detected_message e st))) (\<lambda>_.
         bind (await (GetConfig (config_request a e) (getConfig_r e)) (getConfig_r e))
           (\<lambda>config.
         collect a e st config)))))))"

text \<open>
  How the process ends: the promise of the body resolves and nothing calls
  \<open>process.exit\<close>, or the \<open>.catch\<close> handler calls \<open>process.exit(1)\<close>.
\<close>

datatype ending = Resolved | Exit nat

text \<open>
  The exit code: a Node process that runs to its end with no call of \<open>process.exit\<close> and
  no uncaught error leaves with code 0.
\<close>

fun exit_code :: "ending \<Rightarrow> nat" where
  "exit_code Resolved = 0"
| "exit_code (Exit n) = n"

text \<open>Lines 31-37 and 161-165: the body, and the handler of whatever it throws.\<close>

definition catch_handler :: "'c env \<Rightarrow> error \<Rightarrow> 'c event list" where
  "catch_handler e err = [Outro (red e cross_mark @ '' '' @ message err), HandleCliError err]"

definition aicommits :: "args \<Rightarrow> 'c env \<Rightarrow> 'c event list \<times> ending" where
  "aicommits a e =
     (case body a e of
        (t, Throw err) \<Rightarrow> (t @ catch_handler e err, Exit 1)
      | (t, _) \<Rightarrow> (t, Resolved))"

subsection \<open>Reading a run\<close>

text \<open>The commit step: \<open>git commit ...\<close>.\<close>

fun is_commit :: "'c event \<Rightarrow> bool" where
  "is_commit (Execa file arguments io r) = (file = ''git'' \<and> take 1 arguments = [''commit''])"
| "is_commit _ = False"

text \<open>The re-invocation of the command: \<open>aim ...\<close>.\<close>

fun is_regenerate :: "'c event \<Rightarrow> bool" where
  "is_regenerate (Execa file arguments io r) = (file = ''aim'')"
| "is_regenerate _ = False"

text \<open>The call of the generator, and the call of the detector of staged changes.\<close>

fun is_generation :: "'c event \<Rightarrow> bool" where
  "is_generation (GenerateCommitMessage c d i r) = True"
| "is_generation _ = False"

fun is_detection :: "'c event \<Rightarrow> bool" where
  "is_detection (GetStagedDiff x r) = True"
| "is_detection _ = False"

text \<open>The two prompts of the message selection: the confirmation and the pick.\<close>

fun is_selection_prompt :: "'c event \<Rightarrow> bool" where
  "is_selection_prompt (SelectPrompt p m os i r) = (p = Confirmed \<or> p = Selected)"
| "is_selection_prompt _ = False"

text \<open>
  A prompt that the user cancelled: the cancel symbol at any prompt, or the option
  \<open>No, cancel commit\<close> of the confirmation.
\<close>

fun cancelled :: "'c event \<Rightarrow> bool" where
  "cancelled (TextPrompt p m ph r) = isCancel r"
| "cancelled (SelectPrompt p m os i r) = (isCancel r \<or> (p = Confirmed \<and> r = Value ''cancel''))"
| "cancelled _ = False"

text \<open>A call that rejected, with the error.\<close>

fun rejected :: "'c event \<Rightarrow> error option" where
  "rejected (AssertGitRepo r) = r"
| "rejected (Execa file arguments io r) = r"
| "rejected (GetStagedDiff x (Inl err)) = Some err"
| "rejected (GetConfig q (Inl err)) = Some err"
| "rejected (GenerateCommitMessage c d i (Inl err)) = Some err"
| "rejected _ = None"

text \<open>
  The error that a call leads to: its own rejection, or the \<open>KnownError\<close> that the
  body throws on what the call gave back (lines 53 and 117).
\<close>

fun raised :: "'c event \<Rightarrow> error option" where
  "raised (GetStagedDiff x r) =
     (case r of
        Inl err \<Rightarrow> Some err
      | Inr None \<Rightarrow> Some (KnownError no_staged_message)
      | Inr (Some st) \<Rightarrow> None)"
| "raised (GenerateCommitMessage c d i r) =
     (case r of
        Inl err \<Rightarrow> Some err
      | Inr ms \<Rightarrow> if ms = [] then Some (KnownError no_messages_message) else None)"
| "raised ev = rejected ev"

text \<open>
  A call of a collaborator or a prompt, as opposed to the messages and spinners that the
  command prints itself.
\<close>

fun is_operation :: "'c event \<Rightarrow> bool" where
  "is_operation (Intro m) = False"
| "is_operation (Outro m) = False"
| "is_operation (SpinnerStart s m) = False"
| "is_operation (SpinnerStop s m) = False"
| "is_operation (HandleCliError err) = False"
| "is_operation _ = True"

text \<open>The confirmation answered with \<open>No, regenerate\<close>.\<close>

fun chose_regenerate :: "'c event \<Rightarrow> bool" where
  "chose_regenerate (SelectPrompt p m os i r) = (p = Confirmed \<and> r = Value ''regenerate'')"
| "chose_regenerate _ = False"

text \<open>The prompts of a run, in the order in which they were shown.\<close>

fun prompt_of :: "'c event \<Rightarrow> prompt option" where
  "prompt_of (TextPrompt p m ph r) = Some p"
| "prompt_of (SelectPrompt p m os i r) = Some p"
| "prompt_of _ = None"

fun prompts :: "'c event list \<Rightarrow> prompt list" where
  "prompts [] = []"
| "prompts (x # xs) = (case prompt_of x of None \<Rightarrow> prompts xs | Some p \<Rightarrow> p # prompts xs)"

text \<open>The part of a run from the first occurrence of an event on.\<close>

definition from_event :: "'c event \<Rightarrow> 'c event list \<Rightarrow> 'c event list" where
  "from_event ev t = dropWhile (\<lambda>x. x \<noteq> ev) t"

text \<open>
  The events of a run that got as far as the detection of staged files, as far as the
  first prompt, and so on: each is the one before it and what the next lines of the
  body add when they succeed.
\<close>

definition started :: "args \<Rightarrow> 'c env \<Rightarrow> 'c event list" where
  "started a e =
     [Intro (bgCyan e (black e '' aicommits '')), AssertGitRepo None]
     @ (if stageAll a then [Execa ''git'' [''add'', ''--update''] Pipe None] else [])
     @ [SpinnerStart DetectingFiles detecting_message]"

definition detected :: "args \<Rightarrow> 'c env \<Rightarrow> staged \<Rightarrow> 'c event list" where
  "detected a e st =
     started a e
     @ [GetStagedDiff (excludeFiles a) (Inr (Some st)),
        SpinnerStop DetectingFiles (detected_message e st)]"

definition configured :: "args \<Rightarrow> 'c env \<Rightarrow> staged \<Rightarrow> 'c \<Rightarrow> 'c event list" where
  "configured a e st config = detected a e st @ [GetConfig (config_request a e) (Inr config)]"

definition noted :: "args \<Rightarrow> 'c env \<Rightarrow> staged \<Rightarrow> 'c \<Rightarrow> string \<Rightarrow> 'c event list" where
  "noted a e st config note =
     configured a e st config
     @ [TextPrompt BgInfo
          note_question
          ''fixed typo'' (Value note)]"

definition prefixed ::
  "args \<Rightarrow> 'c env \<Rightarrow> staged \<Rightarrow> 'c \<Rightarrow> string \<Rightarrow> prefix \<Rightarrow> 'c event list" where
  "prefixed a e st config note p =
     noted a e st config note
     @ [SelectPrompt Prefix prefix_question
          prefix_options None (Value (prefix_key p))]"

definition analyzed ::
  "args \<Rightarrow> 'c env \<Rightarrow> staged \<Rightarrow> 'c \<Rightarrow> string \<Rightarrow> prefix \<Rightarrow> error + string list
    \<Rightarrow> 'c event list" where
  "analyzed a e st config note p r =
     prefixed a e st config note p
     @ [SpinnerStart S analyzing_message,
        GenerateCommitMessage config (diff st) (instruction note p) r,
        SpinnerStop S ''Changes analyzed'']"

subsection \<open>Sample runs\<close>

definition args0 :: args where
  "args0 = \<lparr> generate = None, excludeFiles = [], stageAll = False, commitType = None,
             rawArgv = [] \<rparr>"

text \<open>
  One staged file, an empty note, the prefix \<open>fix\<close>, one candidate, which the user
  accepts; every call succeeds.
\<close>

definition env0 :: "unit env" where
  "env0 = \<lparr> process_env = (\<lambda>_. None), toString = (\<lambda>_. []),
            black = id, dim = id, green = id, red = id, bgCyan = id,
            getDetectedMessage = (\<lambda>_. ''Detected 1 staged file''),
            assertGitRepo_r = None, gitAdd_r = None,
            getStagedDiff_r = Inr (Some \<lparr> files = [''login.ts''], diff = ''+guard'' \<rparr>),
            getConfig_r = Inr (),
            bgInfo_r = Value [], prefix_r = Value Fix,
            generateCommitMessage_r = Inr [''add login guard''],
            confirmed_r = Value ''yes'', selected_r = Cancel,
            regenerate_r = None, commit_r = None \<rparr>"

text \<open>The same run with one answer changed.\<close>

definition note_cancelled :: "unit env" where
  "note_cancelled = env0 \<lparr> bgInfo_r := Cancel \<rparr>"

definition prefix_cancelled :: "unit env" where
  "prefix_cancelled = env0 \<lparr> prefix_r := Cancel \<rparr>"

definition confirm_escaped :: "unit env" where
  "confirm_escaped = env0 \<lparr> confirmed_r := Cancel \<rparr>"

definition confirm_refused :: "unit env" where
  "confirm_refused = env0 \<lparr> confirmed_r := Value ''cancel'' \<rparr>"

definition confirm_regenerate :: "unit env" where
  "confirm_regenerate = env0 \<lparr> confirmed_r := Value ''regenerate'' \<rparr>"

definition regenerate_fails :: "unit env" where
  "regenerate_fails =
     env0 \<lparr> confirmed_r := Value ''regenerate'', regenerate_r := Some (Error ''exit code 1'') \<rparr>"

definition three_candidates :: "unit env" where
  "three_candidates =
     env0 \<lparr> prefix_r := Value NoPrefix,
            generateCommitMessage_r := Inr [''first'', ''second'', ''third''],
            selected_r := Value ''second'' \<rparr>"

definition accepted_plain :: "unit env" where
  "accepted_plain = env0 \<lparr> prefix_r := Value NoPrefix \<rparr>"

definition three_with_fix :: "unit env" where
  "three_with_fix =
     env0 \<lparr> generateCommitMessage_r := Inr [''first'', ''second'', ''third''],
            selected_r := Value ''second'' \<rparr>"

definition pick_cancelled :: "unit env" where
  "pick_cancelled = three_candidates \<lparr> selected_r := Cancel \<rparr>"

definition no_candidates :: "unit env" where
  "no_candidates = env0 \<lparr> generateCommitMessage_r := Inr [] \<rparr>"

definition generation_timeout :: "unit env" where
  "generation_timeout = env0 \<lparr> generateCommitMessage_r := Inl (Error ''timeout'') \<rparr>"

definition nothing_staged :: "unit env" where
  "nothing_staged = env0 \<lparr> getStagedDiff_r := Inr None \<rparr>"

definition commit_rejected :: "unit env" where
  "commit_rejected = env0 \<lparr> commit_r := Some (Error ''hook failed'') \<rparr>"

definition entrusted :: "unit env" where
  "entrusted = env0 \<lparr> prefix_r := Value Entrust \<rparr>"

text \<open>Events of these runs: the confirmation, the pick and the call of the generator.\<close>

definition asked_confirmation :: "string prompt_result \<Rightarrow> unit event" where
  "asked_confirmation r =
     SelectPrompt Confirmed
       (confirm_question @ newline @ newline @ ''   '' @ bug @ '' fix: add login guard''
        @ newline)
       confirm_options (Some ''yes'') r"

definition asked_pick :: "string prompt_result \<Rightarrow> unit event" where
  "asked_pick r =
     SelectPrompt Selected (pick_question @ ''(Ctrl+c to exit)'')
       [SelectOption ''first'' ''first'' None, SelectOption ''second'' ''second'' None,
        SelectOption ''third'' ''third'' None]
       None r"

definition generated :: "string \<Rightarrow> error + string list \<Rightarrow> unit event" where
  "generated i r = GenerateCommitMessage () ''+guard'' i r"

section \<open>Every run\<close>

text \<open>
  The body has no loop, so a run is decided by the answers it meets on its way: the
  rule below lists the runs there are, each with the answers that lead to it and with all
  its events.
\<close>

lemmas io_defs = bind_def emit_def
  await_def await_unit_def execa_def throw_def leave_def try_finally_def select_def text_prompt_def
lemmas stage_defs = aicommits_def body_def collect_def analyze_def pick_def commit_def
lemmas prefix_defs = started_def detected_def configured_def noted_def prefixed_def analyzed_def
lemmas run_simps = stage_defs io_defs prefix_defs Let_def

lemma run_cases:
  fixes a :: args and e :: "'c env"
  obtains
    (not_repo) err where "assertGitRepo_r e = Some err"
      "aicommits a e =
         ([Intro (bgCyan e (black e '' aicommits '')), AssertGitRepo (Some err)]
          @ catch_handler e err, Exit 1)"
  | (add_failed) err where "stageAll a" "gitAdd_r e = Some err"
      "aicommits a e =
         ([Intro (bgCyan e (black e '' aicommits '')), AssertGitRepo None,
           Execa ''git'' [''add'', ''--update''] Pipe (Some err)]
          @ catch_handler e err, Exit 1)"
  | (detect_failed) err where "getStagedDiff_r e = Inl err"
      "aicommits a e =
         (started a e @ [GetStagedDiff (excludeFiles a) (Inl err)] @ catch_handler e err,
          Exit 1)"
  | (no_staged) "getStagedDiff_r e = Inr None"
      "aicommits a e =
         (started a e
          @ [GetStagedDiff (excludeFiles a) (Inr None),
             SpinnerStop DetectingFiles detecting_message]
          @ catch_handler e (KnownError
              no_staged_message),
          Exit 1)"
  | (config_failed) st err where "getStagedDiff_r e = Inr (Some st)" "getConfig_r e = Inl err"
      "aicommits a e =
         (detected a e st @ [GetConfig (config_request a e) (Inl err)] @ catch_handler e err,
          Exit 1)"
  | (note_cancelled) st c where "getStagedDiff_r e = Inr (Some st)" "getConfig_r e = Inr c"
      "bgInfo_r e = Cancel"
      "aicommits a e =
         (configured a e st c
          @ [TextPrompt BgInfo
               note_question
               ''fixed typo'' Cancel,
             Outro ''Commit cancelled''],
          Resolved)"
  | (prefix_cancelled) st c info where "getStagedDiff_r e = Inr (Some st)" "getConfig_r e = Inr c"
      "bgInfo_r e = Value info" "prefix_r e = Cancel"
      "aicommits a e =
         (noted a e st c info
          @ [SelectPrompt Prefix prefix_question
               prefix_options None Cancel,
             Outro ''Commit cancelled''],
          Resolved)"
  | (generation_failed) st c info p err where "getStagedDiff_r e = Inr (Some st)" "getConfig_r e = Inr c"
      "bgInfo_r e = Value info" "prefix_r e = Value p" "generateCommitMessage_r e = Inl err"
      "aicommits a e = (analyzed a e st c info p (Inl err) @ catch_handler e err, Exit 1)"
  | (generation_empty) st c info p where "getStagedDiff_r e = Inr (Some st)" "getConfig_r e = Inr c"
      "bgInfo_r e = Value info" "prefix_r e = Value p" "generateCommitMessage_r e = Inr []"
      "aicommits a e =
         (analyzed a e st c info p (Inr [])
          @ catch_handler e (KnownError no_messages_message),
          Exit 1)"
  | (confirm_cancelled) st c info p m where "getStagedDiff_r e = Inr (Some st)" "getConfig_r e = Inr c"
      "bgInfo_r e = Value info" "prefix_r e = Value p" "generateCommitMessage_r e = Inr [m]"
      "confirmed_r e = Cancel \<or> confirmed_r e = Value ''cancel''"
      "aicommits a e =
         (analyzed a e st c info p (Inr [m])
          @ [SelectPrompt Confirmed
               (confirm_question @ newline @ newline @ ''   '' @ decorate p m
                @ newline)
               confirm_options (Some ''yes'') (confirmed_r e),
             Outro ''Commit cancelled''],
          Resolved)"
  | (regenerated) st c info p m where "getStagedDiff_r e = Inr (Some st)" "getConfig_r e = Inr c"
      "bgInfo_r e = Value info" "prefix_r e = Value p" "generateCommitMessage_r e = Inr [m]"
      "confirmed_r e = Value ''regenerate''" "regenerate_r e = None"
      "aicommits a e =
         (analyzed a e st c info p (Inr [m])
          @ [SelectPrompt Confirmed
               (confirm_question @ newline @ newline @ ''   '' @ decorate p m
                @ newline)
               confirm_options (Some ''yes'') (Value ''regenerate''),
             Execa ''aim'' (rawArgv a) Inherit None],
          Resolved)"
  | (regenerate_failed) st c info p m err where "getStagedDiff_r e = Inr (Some st)" "getConfig_r e = Inr c"
      "bgInfo_r e = Value info" "prefix_r e = Value p" "generateCommitMessage_r e = Inr [m]"
      "confirmed_r e = Value ''regenerate''" "regenerate_r e = Some err"
      "aicommits a e =
         (analyzed a e st c info p (Inr [m])
          @ [SelectPrompt Confirmed
               (confirm_question @ newline @ newline @ ''   '' @ decorate p m
                @ newline)
               confirm_options (Some ''yes'') (Value ''regenerate''),
             Execa ''aim'' (rawArgv a) Inherit (Some err)]
          @ catch_handler e err,
          Exit 1)"
  | (confirmed_committed) st c info p m v where "getStagedDiff_r e = Inr (Some st)" "getConfig_r e = Inr c"
      "bgInfo_r e = Value info" "prefix_r e = Value p" "generateCommitMessage_r e = Inr [m]"
      "confirmed_r e = Value v" "v \<noteq> ''cancel''" "v \<noteq> ''regenerate''" "commit_r e = None"
      "aicommits a e =
         (analyzed a e st c info p (Inr [m])
          @ [SelectPrompt Confirmed
               (confirm_question @ newline @ newline @ ''   '' @ decorate p m
                @ newline)
               confirm_options (Some ''yes'') (Value v),
             Execa ''git'' ([''commit'', ''-m'', decorate p m] @ rawArgv a) Pipe None,
             Outro (green e check_mark @ committed_message)],
          Resolved)"
  | (confirmed_commit_failed) st c info p m v err where "getStagedDiff_r e = Inr (Some st)" "getConfig_r e = Inr c"
      "bgInfo_r e = Value info" "prefix_r e = Value p" "generateCommitMessage_r e = Inr [m]"
      "confirmed_r e = Value v" "v \<noteq> ''cancel''" "v \<noteq> ''regenerate''"
      "commit_r e = Some err"
      "aicommits a e =
         (analyzed a e st c info p (Inr [m])
          @ [SelectPrompt Confirmed
               (confirm_question @ newline @ newline @ ''   '' @ decorate p m
                @ newline)
               confirm_options (Some ''yes'') (Value v),
             Execa ''git'' ([''commit'', ''-m'', decorate p m] @ rawArgv a) Pipe (Some err)]
          @ catch_handler e err,
          Exit 1)"
  | (pick_cancelled) st c info p ms where "getStagedDiff_r e = Inr (Some st)" "getConfig_r e = Inr c"
      "bgInfo_r e = Value info" "prefix_r e = Value p" "generateCommitMessage_r e = Inr ms"
      "1 < length ms" "selected_r e = Cancel"
      "aicommits a e =
         (analyzed a e st c info p (Inr ms)
          @ [SelectPrompt Selected
               (pick_question @ dim e ''(Ctrl+c to exit)'')
               (map (\<lambda>v. SelectOption v v None) ms) None Cancel,
             Outro ''Commit cancelled''],
          Resolved)"
  | (picked_committed) st c info p ms v where "getStagedDiff_r e = Inr (Some st)" "getConfig_r e = Inr c"
      "bgInfo_r e = Value info" "prefix_r e = Value p" "generateCommitMessage_r e = Inr ms"
      "1 < length ms" "selected_r e = Value v" "commit_r e = None"
      "aicommits a e =
         (analyzed a e st c info p (Inr ms)
          @ [SelectPrompt Selected
               (pick_question @ dim e ''(Ctrl+c to exit)'')
               (map (\<lambda>v. SelectOption v v None) ms) None (Value v),
             Execa ''git'' ([''commit'', ''-m'', decorate p v] @ rawArgv a) Pipe None,
             Outro (green e check_mark @ committed_message)],
          Resolved)"
  | (picked_commit_failed) st c info p ms v err where "getStagedDiff_r e = Inr (Some st)" "getConfig_r e = Inr c"
      "bgInfo_r e = Value info" "prefix_r e = Value p" "generateCommitMessage_r e = Inr ms"
      "1 < length ms" "selected_r e = Value v" "commit_r e = Some err"
      "aicommits a e =
         (analyzed a e st c info p (Inr ms)
          @ [SelectPrompt Selected
               (pick_question @ dim e ''(Ctrl+c to exit)'')
               (map (\<lambda>v. SelectOption v v None) ms) None (Value v),
             Execa ''git'' ([''commit'', ''-m'', decorate p v] @ rawArgv a) Pipe (Some err)]
          @ catch_handler e err,
          Exit 1)"
proof (cases "assertGitRepo_r e")
  case (Some err)
  then show thesis
    by (intro not_repo [of err]) (simp_all add: run_simps)
next
  case repo: None
  show thesis
  proof (cases "stageAll a \<and> gitAdd_r e \<noteq> None")
    case True
    then obtain err where "stageAll a" "gitAdd_r e = Some err"
      by auto
    with repo show thesis
      by (intro add_failed [of err]) (simp_all add: run_simps)
  next
    case False
    then have add: "stageAll a \<longrightarrow> gitAdd_r e = None"
      by simp
    show thesis
    proof (cases "getStagedDiff_r e")
      case (Inl err)
      with repo add show thesis
        by (intro detect_failed [of err]) (simp_all add: run_simps)
    next
      case (Inr found)
      show thesis
      proof (cases found)
        case None
        with repo add Inr show thesis
          by (intro no_staged) (simp_all add: run_simps)
      next
        case (Some st)
        with Inr have staged: "getStagedDiff_r e = Inr (Some st)"
          by simp
        show thesis
        proof (cases "getConfig_r e")
          case (Inl err)
          with repo add staged show thesis
            by (intro config_failed [of st err]) (simp_all add: run_simps)
        next
          case config: (Inr c)
          show thesis
          proof (cases "bgInfo_r e")
            case Cancel
            with repo add staged config show thesis
              by (intro note_cancelled [of st c]) (simp_all add: run_simps)
          next
            case answered: (Value info)
            show thesis
            proof (cases "prefix_r e")
              case Cancel
              with repo add staged config answered show thesis
                by (intro prefix_cancelled [of st c info]) (simp_all add: run_simps)
            next
              case prefix: (Value p)
              note reached = repo add staged config answered prefix
              show thesis
              proof (cases "generateCommitMessage_r e")
                case (Inl err)
                with reached show thesis
                  by (intro generation_failed [of st c info p err]) (simp_all add: run_simps)
              next
                case generated: (Inr ms)
                consider "ms = []" | m where "ms = [m]" | "1 < length ms"
                  by (cases ms; cases "tl ms") auto
                then show thesis
                proof cases
                  case 1
                  with reached generated show thesis
                    by (intro generation_empty [of st c info p]) (simp_all add: run_simps)
                next
                  case single: 2
                  show thesis
                  proof (cases "confirmed_r e")
                    case Cancel
                    with reached generated single show thesis
                      by (intro confirm_cancelled [of st c info p m]) (simp_all add: run_simps)
                  next
                    case confirmed: (Value v)
                    consider "v = ''cancel''" | "v = ''regenerate''"
                      | "v \<noteq> ''cancel''" "v \<noteq> ''regenerate''"
                      by blast
                    then show thesis
                    proof cases
                      case 1
                      with reached generated single confirmed show thesis
                        by (intro confirm_cancelled [of st c info p m])
                          (simp_all add: run_simps)
                    next
                      case 2
                      show thesis
                      proof (cases "regenerate_r e")
                        case None
                        with reached generated single confirmed 2 show thesis
                          by (intro regenerated [of st c info p m])
                            (simp_all add: run_simps)
                      next
                        case (Some err)
                        with reached generated single confirmed 2 show thesis
                          by (intro regenerate_failed [of st c info p m err])
                            (simp_all add: run_simps)
                      qed
                    next
                      case 3
                      show thesis
                      proof (cases "commit_r e")
                        case None
                        with reached generated single confirmed 3 show thesis
                          by (intro confirmed_committed [of st c info p m v])
                            (simp_all add: run_simps)
                      next
                        case (Some err)
                        with reached generated single confirmed 3 show thesis
                          by (intro confirmed_commit_failed [of st c info p m v err])
                            (simp_all add: run_simps)
                      qed
                    qed
                  qed
                next
                  case several: 3
                  then have not_single: "length ms \<noteq> Suc 0" "ms \<noteq> []"
                    by auto
                  show thesis
                  proof (cases "selected_r e")
                    case Cancel
                    with reached generated several not_single show thesis
                      by (intro pick_cancelled [of st c info p ms]) (simp_all add: run_simps)
                  next
                    case selected: (Value v)
                    show thesis
                    proof (cases "commit_r e")
                      case None
                      with reached generated several not_single selected show thesis
                        by (intro picked_committed [of st c info p ms v])
                          (simp_all add: run_simps)
                    next
                      case (Some err)
                      with reached generated several not_single selected show thesis
                        by (intro picked_commit_failed [of st c info p ms v err])
                          (simp_all add: run_simps)
                    qed
                  qed
                qed
              qed
            qed
          qed
        qed
      qed
    qed
  qed
qed


text \<open>What the events of a run up to each stage are not.\<close>

lemma in_started:
  assumes "x \<in> set (started a e)"
  shows "\<not> cancelled x" "\<not> is_commit x" "\<not> is_regenerate x" "\<not> is_generation x"
    "\<not> is_detection x" "\<not> is_selection_prompt x" "\<not> chose_regenerate x"
    "prompt_of x = None" "raised x = None" "x \<noteq> SpinnerStart S m"
  using assms by (auto simp: started_def split: if_splits)

lemma in_detected:
  assumes "x \<in> set (detected a e st)"
  shows "\<not> cancelled x" "\<not> is_commit x" "\<not> is_regenerate x" "\<not> is_generation x"
    "\<not> is_selection_prompt x" "\<not> chose_regenerate x"
    "prompt_of x = None" "raised x = None" "x \<noteq> SpinnerStart S m"
  using assms by (auto simp: detected_def dest: in_started)

lemma in_configured:
  assumes "x \<in> set (configured a e st c)"
  shows "\<not> cancelled x" "\<not> is_commit x" "\<not> is_regenerate x" "\<not> is_generation x"
    "\<not> is_selection_prompt x" "\<not> chose_regenerate x"
    "prompt_of x = None" "raised x = None" "x \<noteq> SpinnerStart S m"
  using assms by (auto simp: configured_def dest: in_detected)

lemma in_noted:
  assumes "x \<in> set (noted a e st c n)"
  shows "\<not> cancelled x" "\<not> is_commit x" "\<not> is_regenerate x" "\<not> is_generation x"
    "\<not> is_selection_prompt x" "\<not> chose_regenerate x"
    "raised x = None" "x \<noteq> SpinnerStart S m"
  using assms by (auto simp: noted_def dest: in_configured)

lemma in_prefixed:
  assumes "x \<in> set (prefixed a e st c n p)"
  shows "\<not> cancelled x" "\<not> is_commit x" "\<not> is_regenerate x" "\<not> is_generation x"
    "\<not> is_selection_prompt x" "\<not> chose_regenerate x"
    "raised x = None" "x \<noteq> SpinnerStart S m"
  using assms by (auto simp: prefixed_def dest: in_noted)

lemma in_analyzed:
  assumes "x \<in> set (analyzed a e st c n p r)"
  shows "\<not> cancelled x" "\<not> is_commit x" "\<not> is_regenerate x"
    "\<not> is_selection_prompt x" "\<not> chose_regenerate x"
  using assms by (auto simp: analyzed_def dest: in_prefixed)

lemmas in_prefix = in_started in_detected in_configured in_noted in_prefixed in_analyzed

lemma generation_in_analyzed:
  assumes "GenerateCommitMessage c' d i r' \<in> set (analyzed a e st c n p r)"
  shows "c' = c \<and> d = diff st \<and> i = instruction n p \<and> r' = r"
  using assms by (auto simp: analyzed_def dest: in_prefixed)

lemma spinner_not_in_prefixed: "SpinnerStart S m \<notin> set (prefixed a e st c n p)"
  by (auto dest: in_prefixed(8))

lemma raised_not_in_prefix:
  assumes "raised ev = Some err"
  shows "ev \<notin> set (started a e)" "ev \<notin> set (detected a e st)"
    "ev \<notin> set (configured a e st c)" "ev \<notin> set (noted a e st c n)"
    "ev \<notin> set (prefixed a e st c n p)"
  using assms
  by (auto dest: in_started(9) in_detected(8) in_configured(8) in_noted(7) in_prefixed(7))

lemma silent_prefix:
  "filter is_commit (started a e) = []" "filter is_commit (detected a e st) = []"
  "filter is_commit (configured a e st c) = []" "filter is_commit (noted a e st c n) = []"
  "filter is_commit (prefixed a e st c n p) = []"
  "filter is_commit (analyzed a e st c n p r) = []"
  "filter is_regenerate (started a e) = []" "filter is_regenerate (detected a e st) = []"
  "filter is_regenerate (configured a e st c) = []"
  "filter is_regenerate (noted a e st c n) = []"
  "filter is_regenerate (prefixed a e st c n p) = []"
  "filter is_regenerate (analyzed a e st c n p r) = []"
  "filter is_generation (started a e) = []" "filter is_generation (detected a e st) = []"
  "filter is_generation (configured a e st c) = []"
  "filter is_generation (noted a e st c n) = []"
  "filter is_generation (prefixed a e st c n p) = []"
  by (simp_all add: filter_empty_conv in_started in_detected in_configured in_noted
      in_prefixed in_analyzed)

lemma once_in_prefix:
  "filter is_detection (started a e) = []"
  "length (filter is_detection (detected a e st)) = 1"
  "length (filter is_detection (configured a e st c)) = 1"
  "length (filter is_detection (noted a e st c n)) = 1"
  "length (filter is_detection (prefixed a e st c n p)) = 1"
  "length (filter is_detection (analyzed a e st c n p r)) = 1"
  "length (filter is_generation (analyzed a e st c n p r)) = 1"
  by (simp_all add: filter_empty_conv in_started in_prefixed detected_def configured_def
      noted_def prefixed_def analyzed_def)

lemma prompts_append: "prompts (xs @ ys) = prompts xs @ prompts ys"
  by (induction xs) (simp_all split: option.splits)

lemma prompts_none: "(\<And>x. x \<in> set xs \<Longrightarrow> prompt_of x = None) \<Longrightarrow> prompts xs = []"
  by (induction xs) simp_all

lemma prompts_prefix:
  "prompts (started a e) = []"
  "prompts (detected a e st) = []"
  "prompts (configured a e st c) = []"
  "prompts (noted a e st c n) = [BgInfo]"
  "prompts (prefixed a e st c n p) = [BgInfo, Prefix]"
  "prompts (analyzed a e st c n p r) = [BgInfo, Prefix]"
  by (simp_all add: prompts_none in_started in_detected in_configured noted_def prefixed_def
      analyzed_def prompts_append)

lemma from_event_simps:
  "from_event ev [] = []"
  "from_event ev (x # xs) = (if x = ev then x # xs else from_event ev xs)"
  by (simp_all add: from_event_def)

lemma from_event_append: "ev \<notin> set xs \<Longrightarrow> from_event ev (xs @ ys) = from_event ev ys"
  by (induction xs) (auto simp: from_event_def)

lemma instruction_value:
  "instruction info p =
     (if p = Entrust
      then (if info = [] then [] else background_label @ info) @ newline @ directive
      else (if info = [] then [] else background_label @ info))"
  by (cases p; simp add: instruction_def bgInfoText_def)

lemma decorate_value:
  "decorate p m = (if p = NoPrefix \<or> p = Entrust then m else commitPrefixes p @ '': '' @ m)"
  by (cases p; simp add: decorate_def)

lemmas shape = catch_handler_def suffix_append suffix_Cons filter_empty_conv

lemmas sample_defs = args0_def env0_def note_cancelled_def prefix_cancelled_def
  confirm_escaped_def confirm_refused_def confirm_regenerate_def regenerate_fails_def
  three_candidates_def accepted_plain_def three_with_fix_def pick_cancelled_def no_candidates_def generation_timeout_def
  nothing_staged_def commit_rejected_def entrusted_def

section \<open>The claims\<close>

text \<open>
  C1. Decoration rule: for every raw message \<open>m\<close> and every prefix \<open>p\<close>, the message
  after decoration is \<open>m\<close> itself when \<open>p\<close> is none or entrust, and otherwise the
  fixed label of \<open>p\<close>, then a colon and a space, then \<open>m\<close>. The labels are those of the
  table, one by one; the prefix fix on the raw message \<open>add login guard\<close> gives the bug
  emoji followed by \<open>fix: add login guard\<close>; decorating again with none changes
  nothing. The message of every commit of every run is such a decoration, by the prefix
  the user chose.
\<close>

theorem decoration_rule:
  "decorate p m = (if p = NoPrefix \<or> p = Entrust then m else commitPrefixes p @ '': '' @ m)
   \<and> map (\<lambda>p. decorate p m)
         [NoPrefix, Entrust, Fix, Chore, Docs, Style, Feat, Perf, Test, Security, Refactor]
       = [m, m, bug @ '' fix: '' @ m, hammer @ '' chore: '' @ m, memo @ '' docs: '' @ m,
          palette @ '' style: '' @ m, rocket @ '' feat: '' @ m, fire @ '' perf: '' @ m,
          siren @ '' test: '' @ m, lock @ '' security: '' @ m, wrench @ '' refactor: '' @ m]
   \<and> decorate Fix ''add login guard'' = bug @ '' fix: add login guard''
   \<and> decorate NoPrefix (decorate NoPrefix m) = decorate NoPrefix m
   \<and> decorate NoPrefix (decorate p m) = decorate p m
   \<and> (ev \<in> set (fst (aicommits a e)) \<and> is_commit ev \<longrightarrow>
        (\<exists>q raw. prefix_r e = Value q
           \<and> ev = Execa ''git'' ([''commit'', ''-m'', decorate q raw] @ rawArgv a) Pipe
                    (commit_r e)))"
proof -
  have rule: "decorate p m = (if p = NoPrefix \<or> p = Entrust then m else commitPrefixes p @ '': '' @ m)
   \<and> map (\<lambda>p. decorate p m)
         [NoPrefix, Entrust, Fix, Chore, Docs, Style, Feat, Perf, Test, Security, Refactor]
       = [m, m, bug @ '' fix: '' @ m, hammer @ '' chore: '' @ m, memo @ '' docs: '' @ m,
          palette @ '' style: '' @ m, rocket @ '' feat: '' @ m, fire @ '' perf: '' @ m,
          siren @ '' test: '' @ m, lock @ '' security: '' @ m, wrench @ '' refactor: '' @ m]
   \<and> decorate Fix ''add login guard'' = bug @ '' fix: add login guard''
   \<and> decorate NoPrefix (decorate NoPrefix m) = decorate NoPrefix m
   \<and> decorate NoPrefix (decorate p m) = decorate p m"
    by (cases p; simp add: decorate_def)
  have final: "ev \<in> set (fst (aicommits a e)) \<and> is_commit ev \<longrightarrow>
        (\<exists>q raw. prefix_r e = Value q
           \<and> ev = Execa ''git'' ([''commit'', ''-m'', decorate q raw] @ rawArgv a) Pipe
                    (commit_r e))"
    by (cases a e rule: run_cases; auto simp: shape dest: in_prefix)
  from rule final show ?thesis
    by blast
qed

text \<open>
  The sample run: staged files, the one candidate \<open>add login guard\<close>, the prefix fix,
  the user accepts; the commit carries the decorated message and the exit code is 0.
\<close>

theorem decoration_rule_witness:
  "Execa ''git'' [''commit'', ''-m'', bug @ '' fix: add login guard''] Pipe None
     \<in> set (fst (aicommits args0 env0))
   \<and> prefix_r env0 = Value Fix
   \<and> generateCommitMessage_r env0 = Inr [''add login guard'']
   \<and> confirmed_r env0 = Value ''yes''
   \<and> exit_code (snd (aicommits args0 env0)) = 0"
proof -
  have a: "Execa ''git'' [''commit'', ''-m'', bug @ '' fix: add login guard''] Pipe None
     \<in> set (fst (aicommits args0 env0))"
    by code_simp
  have b: "exit_code (snd (aicommits args0 env0)) = 0"
    by code_simp
  from a b
    decoration_rule [of Fix "''add login guard''"
      "Execa ''git'' [''commit'', ''-m'', bug @ '' fix: add login guard''] Pipe None" args0 env0]
  show ?thesis
    by (simp add: env0_def)
qed

text \<open>
  C2, as the claim states it: a run either commits exactly once, with its one final
  message, or never invokes the commit, the latter on a cancellation, on the re-spawn
  and on any fatal error. The last part fails: a commit that is rejected (a hook, for
  one) is a fatal error of a run that did invoke the commit. In the sample run where
  git rejects the commit there is one commit call, it is the call that raised the
  error, and the process exits with code 1.
\<close>

theorem commit_failure_after_invocation:
  "filter is_commit (fst (aicommits args0 commit_rejected))
     = [Execa ''git'' [''commit'', ''-m'', bug @ '' fix: add login guard''] Pipe
          (Some (Error ''hook failed''))]
   \<and> raised (Execa ''git'' [''commit'', ''-m'', bug @ '' fix: add login guard''] Pipe
          (Some (Error ''hook failed'')) :: unit event) = Some (Error ''hook failed'')
   \<and> snd (aicommits args0 commit_rejected) = Exit 1"
  by code_simp

text \<open>
  C2, amended: a run in which a prompt was cancelled, or the command was re-spawned, or
  a step other than the commit itself led to an error, never invokes the commit. Every
  other run invokes it exactly once, with the one final message of the run: the raw
  candidate (the single one, or the one the user picked among several), as it is when
  the prefix is none or entrust and after the label of the prefix, a colon and a space
  otherwise, followed by the raw arguments. A rejected commit is such a run: the commit
  was invoked once, and its failure is fatal.
\<close>

theorem one_final_message:
  "(let t = fst (aicommits a e);
        stopped = ((\<exists>ev \<in> set t. cancelled ev) \<or> (\<exists>ev \<in> set t. is_regenerate ev)
                   \<or> (\<exists>ev \<in> set t. \<not> is_commit ev \<and> raised ev \<noteq> None)) in
     (stopped \<longrightarrow> filter is_commit t = [])
     \<and> (\<not> stopped \<longrightarrow>
          (\<exists>p raw. prefix_r e = Value p \<and> generateCommitMessage_r e = Inr [raw]
             \<and> filter is_commit t =
                 [Execa ''git''
                    ([''commit'', ''-m'',
                      if p = NoPrefix \<or> p = Entrust then raw else commitPrefixes p @ '': '' @ raw]
                     @ rawArgv a)
                    Pipe (commit_r e)])
          \<or> (\<exists>p raw ms. prefix_r e = Value p \<and> generateCommitMessage_r e = Inr ms
                \<and> 1 < length ms \<and> selected_r e = Value raw
                \<and> filter is_commit t =
                    [Execa ''git''
                       ([''commit'', ''-m'',
                         if p = NoPrefix \<or> p = Entrust then raw
                         else commitPrefixes p @ '': '' @ raw]
                        @ rawArgv a)
                       Pipe (commit_r e)])))"
proof -
  have "(let t = fst (aicommits a e);
        stopped = ((\<exists>ev \<in> set t. cancelled ev) \<or> (\<exists>ev \<in> set t. is_regenerate ev)
                   \<or> (\<exists>ev \<in> set t. \<not> is_commit ev \<and> raised ev \<noteq> None)) in
     (stopped \<longrightarrow> filter is_commit t = [])
     \<and> (\<not> stopped \<longrightarrow>
          (\<exists>p raw. prefix_r e = Value p \<and> generateCommitMessage_r e = Inr [raw]
             \<and> filter is_commit t =
                 [Execa ''git'' ([''commit'', ''-m'', decorate p raw] @ rawArgv a)
                    Pipe (commit_r e)])
          \<or> (\<exists>p raw ms. prefix_r e = Value p \<and> generateCommitMessage_r e = Inr ms
                \<and> 1 < length ms \<and> selected_r e = Value raw
                \<and> filter is_commit t =
                    [Execa ''git'' ([''commit'', ''-m'', decorate p raw] @ rawArgv a)
                       Pipe (commit_r e)])))"
    by (cases a e rule: run_cases; auto simp: Let_def shape analyzed_def dest: in_prefix)
  then show ?thesis
    unfolding decorate_value .
qed

text \<open>
  The sample runs. One commit: the user accepts the single candidate, with the prefix
  fix and with none; picks the second of three with the prefix fix; accepts and git
  rejects the commit. No commit: the note
  is cancelled; the user asks to regenerate; the generator returns nothing.
\<close>

theorem one_final_message_witness:
  "(\<not> ((\<exists>ev \<in> set (fst (aicommits args0 env0)). cancelled ev)
        \<or> (\<exists>ev \<in> set (fst (aicommits args0 env0)). is_regenerate ev)
        \<or> (\<exists>ev \<in> set (fst (aicommits args0 env0)). \<not> is_commit ev \<and> raised ev \<noteq> None))
    \<and> length (filter is_commit (fst (aicommits args0 env0))) = 1
    \<and> filter is_commit (fst (aicommits args0 env0))
        = [Execa ''git'' [''commit'', ''-m'', bug @ '' fix: add login guard''] Pipe None])
   \<and> (\<not> ((\<exists>ev \<in> set (fst (aicommits args0 accepted_plain)). cancelled ev)
          \<or> (\<exists>ev \<in> set (fst (aicommits args0 accepted_plain)). is_regenerate ev)
          \<or> (\<exists>ev \<in> set (fst (aicommits args0 accepted_plain)).
                \<not> is_commit ev \<and> raised ev \<noteq> None))
      \<and> length (filter is_commit (fst (aicommits args0 accepted_plain))) = 1
      \<and> filter is_commit (fst (aicommits args0 accepted_plain))
          = [Execa ''git'' [''commit'', ''-m'', ''add login guard''] Pipe None])
   \<and> (\<not> ((\<exists>ev \<in> set (fst (aicommits args0 three_with_fix)). cancelled ev)
          \<or> (\<exists>ev \<in> set (fst (aicommits args0 three_with_fix)). is_regenerate ev)
          \<or> (\<exists>ev \<in> set (fst (aicommits args0 three_with_fix)).
                \<not> is_commit ev \<and> raised ev \<noteq> None))
      \<and> length (filter is_commit (fst (aicommits args0 three_with_fix))) = 1
      \<and> filter is_commit (fst (aicommits args0 three_with_fix))
          = [Execa ''git'' [''commit'', ''-m'', bug @ '' fix: second''] Pipe None])
   \<and> (\<not> ((\<exists>ev \<in> set (fst (aicommits args0 commit_rejected)). cancelled ev)
          \<or> (\<exists>ev \<in> set (fst (aicommits args0 commit_rejected)). is_regenerate ev)
          \<or> (\<exists>ev \<in> set (fst (aicommits args0 commit_rejected)).
                \<not> is_commit ev \<and> raised ev \<noteq> None))
      \<and> length (filter is_commit (fst (aicommits args0 commit_rejected))) = 1)
   \<and> ((\<exists>ev \<in> set (fst (aicommits args0 note_cancelled)). cancelled ev)
      \<and> filter is_commit (fst (aicommits args0 note_cancelled)) = [])
   \<and> ((\<exists>ev \<in> set (fst (aicommits args0 confirm_regenerate)). is_regenerate ev)
      \<and> filter is_commit (fst (aicommits args0 confirm_regenerate)) = [])
   \<and> ((\<exists>ev \<in> set (fst (aicommits args0 no_candidates)). \<not> is_commit ev \<and> raised ev \<noteq> None)
      \<and> filter is_commit (fst (aicommits args0 no_candidates)) = [])"
proof -
  have g1: "\<not> ((\<exists>ev \<in> set (fst (aicommits args0 env0)). cancelled ev)
        \<or> (\<exists>ev \<in> set (fst (aicommits args0 env0)). is_regenerate ev)
        \<or> (\<exists>ev \<in> set (fst (aicommits args0 env0)). \<not> is_commit ev \<and> raised ev \<noteq> None))"
    by code_simp
  have g0: "\<not> ((\<exists>ev \<in> set (fst (aicommits args0 accepted_plain)). cancelled ev)
          \<or> (\<exists>ev \<in> set (fst (aicommits args0 accepted_plain)). is_regenerate ev)
          \<or> (\<exists>ev \<in> set (fst (aicommits args0 accepted_plain)).
                \<not> is_commit ev \<and> raised ev \<noteq> None))"
    by code_simp
  have v0: "filter is_commit (fst (aicommits args0 accepted_plain))
          = [Execa ''git'' [''commit'', ''-m'', ''add login guard''] Pipe None]"
    by code_simp
  from one_final_message [of args0 accepted_plain] g0
  have l0: "length (filter is_commit (fst (aicommits args0 accepted_plain))) = 1"
    unfolding Let_def by fastforce
  have g2: "\<not> ((\<exists>ev \<in> set (fst (aicommits args0 three_with_fix)). cancelled ev)
          \<or> (\<exists>ev \<in> set (fst (aicommits args0 three_with_fix)). is_regenerate ev)
          \<or> (\<exists>ev \<in> set (fst (aicommits args0 three_with_fix)).
                \<not> is_commit ev \<and> raised ev \<noteq> None))"
    by code_simp
  have g3: "\<not> ((\<exists>ev \<in> set (fst (aicommits args0 commit_rejected)). cancelled ev)
          \<or> (\<exists>ev \<in> set (fst (aicommits args0 commit_rejected)). is_regenerate ev)
          \<or> (\<exists>ev \<in> set (fst (aicommits args0 commit_rejected)).
                \<not> is_commit ev \<and> raised ev \<noteq> None))"
    by code_simp
  have h1: "\<exists>ev \<in> set (fst (aicommits args0 note_cancelled)). cancelled ev"
    by code_simp
  have h2: "\<exists>ev \<in> set (fst (aicommits args0 confirm_regenerate)). is_regenerate ev"
    by code_simp
  have h3: "\<exists>ev \<in> set (fst (aicommits args0 no_candidates)). \<not> is_commit ev \<and> raised ev \<noteq> None"
    by code_simp
  have v1: "filter is_commit (fst (aicommits args0 env0))
        = [Execa ''git'' [''commit'', ''-m'', bug @ '' fix: add login guard''] Pipe None]"
    by code_simp
  have v2: "filter is_commit (fst (aicommits args0 three_with_fix))
          = [Execa ''git'' [''commit'', ''-m'', bug @ '' fix: second''] Pipe None]"
    by code_simp
  from one_final_message [of args0 env0] g1
  have l1: "length (filter is_commit (fst (aicommits args0 env0))) = 1"
    unfolding Let_def by fastforce
  from one_final_message [of args0 three_with_fix] g2
  have l2: "length (filter is_commit (fst (aicommits args0 three_with_fix))) = 1"
    unfolding Let_def by fastforce
  from one_final_message [of args0 commit_rejected] g3
  have l3: "length (filter is_commit (fst (aicommits args0 commit_rejected))) = 1"
    unfolding Let_def by fastforce
  from one_final_message [of args0 note_cancelled] h1
  have c1: "filter is_commit (fst (aicommits args0 note_cancelled)) = []"
    unfolding Let_def by blast
  from one_final_message [of args0 confirm_regenerate] h2
  have c2: "filter is_commit (fst (aicommits args0 confirm_regenerate)) = []"
    unfolding Let_def by blast
  from one_final_message [of args0 no_candidates] h3
  have c3: "filter is_commit (fst (aicommits args0 no_candidates)) = []"
    unfolding Let_def by blast
  from g1 l1 v1 g0 l0 v0 g2 l2 v2 g3 l3 h1 c1 h2 c2 h3 c3 show ?thesis
    by (intro conjI)
qed

text \<open>
  C3. Whenever the user cancels a prompt (the cancel signal at the note, at the prefix,
  at the confirmation or at the pick, or the option \<open>No, cancel commit\<close> of the
  confirmation), the run ends right there with the message \<open>Commit cancelled\<close>: these
  are its last two events, there is no commit, the body returns without an error and
  the exit code is 0.
\<close>

theorem cancellation:
  assumes "ev \<in> set (fst (aicommits a e))" and "cancelled ev"
  shows "suffix [ev, Outro ''Commit cancelled''] (fst (aicommits a e))
       \<and> filter is_commit (fst (aicommits a e)) = []
       \<and> snd (aicommits a e) = Resolved
       \<and> exit_code (snd (aicommits a e)) = 0"
  using assms
  by (cases a e rule: run_cases; auto simp: shape dest: in_prefix)

text \<open>
  A cancel at each of the four prompts of the sample runs, and the refusal at the
  confirmation.
\<close>

theorem cancellation_witness:
  "(TextPrompt BgInfo note_question ''fixed typo'' Cancel
      \<in> set (fst (aicommits args0 note_cancelled))
    \<and> suffix [TextPrompt BgInfo note_question ''fixed typo'' Cancel, Outro ''Commit cancelled'']
        (fst (aicommits args0 note_cancelled))
    \<and> filter is_commit (fst (aicommits args0 note_cancelled)) = []
    \<and> exit_code (snd (aicommits args0 note_cancelled)) = 0)
   \<and> (SelectPrompt Prefix prefix_question prefix_options None Cancel
        \<in> set (fst (aicommits args0 prefix_cancelled))
      \<and> suffix [SelectPrompt Prefix prefix_question prefix_options None Cancel,
                Outro ''Commit cancelled'']
          (fst (aicommits args0 prefix_cancelled))
      \<and> filter is_commit (fst (aicommits args0 prefix_cancelled)) = []
      \<and> exit_code (snd (aicommits args0 prefix_cancelled)) = 0)
   \<and> (asked_confirmation Cancel \<in> set (fst (aicommits args0 confirm_escaped))
      \<and> suffix [asked_confirmation Cancel, Outro ''Commit cancelled'']
          (fst (aicommits args0 confirm_escaped))
      \<and> filter is_commit (fst (aicommits args0 confirm_escaped)) = []
      \<and> exit_code (snd (aicommits args0 confirm_escaped)) = 0)
   \<and> (asked_confirmation (Value ''cancel'') \<in> set (fst (aicommits args0 confirm_refused))
      \<and> suffix [asked_confirmation (Value ''cancel''), Outro ''Commit cancelled'']
          (fst (aicommits args0 confirm_refused))
      \<and> filter is_commit (fst (aicommits args0 confirm_refused)) = []
      \<and> exit_code (snd (aicommits args0 confirm_refused)) = 0)
   \<and> (asked_pick Cancel \<in> set (fst (aicommits args0 pick_cancelled))
      \<and> suffix [asked_pick Cancel, Outro ''Commit cancelled'']
          (fst (aicommits args0 pick_cancelled))
      \<and> filter is_commit (fst (aicommits args0 pick_cancelled)) = []
      \<and> exit_code (snd (aicommits args0 pick_cancelled)) = 0)"
proof -
  have n: "TextPrompt BgInfo note_question ''fixed typo'' Cancel
      \<in> set (fst (aicommits args0 note_cancelled))"
    by code_simp
  have p: "SelectPrompt Prefix prefix_question prefix_options None Cancel
      \<in> set (fst (aicommits args0 prefix_cancelled))"
    by code_simp
  have c: "asked_confirmation Cancel \<in> set (fst (aicommits args0 confirm_escaped))"
    by code_simp
  have r: "asked_confirmation (Value ''cancel'') \<in> set (fst (aicommits args0 confirm_refused))"
    by code_simp
  have s: "asked_pick Cancel \<in> set (fst (aicommits args0 pick_cancelled))"
    by code_simp
  have "cancelled (asked_confirmation Cancel :: unit event)"
    "cancelled (asked_confirmation (Value ''cancel'') :: unit event)"
    "cancelled (asked_pick Cancel :: unit event)"
    by (simp_all add: asked_confirmation_def asked_pick_def)
  with n p c r s
    cancellation [OF n] cancellation [OF p] cancellation [OF c] cancellation [OF r]
    cancellation [OF s]
  show ?thesis
    by simp
qed

text \<open>
  C4. When the user answers the confirmation with \<open>No, regenerate\<close> (which is asked
  only when there is exactly one candidate), the run spawns exactly one child, the
  program \<open>aim\<close> with the raw arguments and the inherited terminal, and never commits.
  The child follows the confirmation at once and is the last thing the run does: when
  the child succeeds the run ends there, and when the child fails its error goes to
  the handler and the process exits with code 1.
\<close>

theorem regeneration:
  assumes "ev \<in> set (fst (aicommits a e))" and "chose_regenerate ev"
  shows "(\<exists>m. generateCommitMessage_r e = Inr [m])
       \<and> filter is_regenerate (fst (aicommits a e))
           = [Execa ''aim'' (rawArgv a) Inherit (regenerate_r e)]
       \<and> filter is_commit (fst (aicommits a e)) = []
       \<and> suffix
           ([ev, Execa ''aim'' (rawArgv a) Inherit (regenerate_r e)]
            @ (case regenerate_r e of None \<Rightarrow> [] | Some err \<Rightarrow> catch_handler e err))
           (fst (aicommits a e))
       \<and> snd (aicommits a e) = (case regenerate_r e of None \<Rightarrow> Resolved | Some err \<Rightarrow> Exit 1)"
  using assms
  by (cases a e rule: run_cases; auto simp: shape dest: in_prefix)

text \<open>
  The sample run that regenerates, with a child that succeeds and with one that fails.
\<close>

theorem regeneration_witness:
  "(asked_confirmation (Value ''regenerate'') \<in> set (fst (aicommits args0 confirm_regenerate))
    \<and> filter is_regenerate (fst (aicommits args0 confirm_regenerate))
        = [Execa ''aim'' [] Inherit None]
    \<and> filter is_commit (fst (aicommits args0 confirm_regenerate)) = []
    \<and> suffix [asked_confirmation (Value ''regenerate''), Execa ''aim'' [] Inherit None]
        (fst (aicommits args0 confirm_regenerate))
    \<and> snd (aicommits args0 confirm_regenerate) = Resolved)
   \<and> (asked_confirmation (Value ''regenerate'') \<in> set (fst (aicommits args0 regenerate_fails))
      \<and> filter is_regenerate (fst (aicommits args0 regenerate_fails))
          = [Execa ''aim'' [] Inherit (Some (Error ''exit code 1''))]
      \<and> filter is_commit (fst (aicommits args0 regenerate_fails)) = []
      \<and> snd (aicommits args0 regenerate_fails) = Exit 1)"
proof -
  have chose: "chose_regenerate (asked_confirmation (Value ''regenerate''))"
    by (simp add: asked_confirmation_def)
  have a: "asked_confirmation (Value ''regenerate'')
      \<in> set (fst (aicommits args0 confirm_regenerate))"
    by code_simp
  have b: "asked_confirmation (Value ''regenerate'')
      \<in> set (fst (aicommits args0 regenerate_fails))"
    by code_simp
  from a b regeneration [OF a chose] regeneration [OF b chose] show ?thesis
    by (simp add: sample_defs)
qed

text \<open>
  C5. When the generator returns more than one candidate, the run shows one pick with
  one option per candidate, in the order of generation, label and value both the raw
  string, and no initial value. The prompts of the whole run are the note, the prefix
  and this pick: there is no confirmation, and nothing is re-spawned. A picked candidate
  is committed at once, as it is when the prefix is none or entrust and after the label
  of the prefix, a colon and a space otherwise; a cancelled pick ends the run with
  \<open>Commit cancelled\<close> and no commit.
\<close>

theorem several_candidates:
  assumes "GenerateCommitMessage c d i (Inr ms) \<in> set (fst (aicommits a e))"
    and "1 < length ms"
  shows "\<exists>p. prefix_r e = Value p
       \<and> suffix
           (SelectPrompt Selected (pick_question @ dim e ''(Ctrl+c to exit)'')
              (map (\<lambda>v. SelectOption v v None) ms) None (selected_r e)
            # (case selected_r e of
                 Cancel \<Rightarrow> [Outro ''Commit cancelled'']
               | Value v \<Rightarrow>
                   Execa ''git''
                     ([''commit'', ''-m'',
                       if p = NoPrefix \<or> p = Entrust then v else commitPrefixes p @ '': '' @ v]
                      @ rawArgv a)
                     Pipe (commit_r e)
                   # (case commit_r e of
                        None \<Rightarrow> [Outro (green e check_mark @ committed_message)]
                      | Some err \<Rightarrow> catch_handler e err)))
           (fst (aicommits a e))
       \<and> prompts (fst (aicommits a e)) = [BgInfo, Prefix, Selected]
       \<and> filter is_regenerate (fst (aicommits a e)) = []
       \<and> filter is_commit (fst (aicommits a e))
           = (case selected_r e of
                Cancel \<Rightarrow> []
              | Value v \<Rightarrow>
                  [Execa ''git''
                     ([''commit'', ''-m'',
                       if p = NoPrefix \<or> p = Entrust then v else commitPrefixes p @ '': '' @ v]
                      @ rawArgv a)
                     Pipe (commit_r e)])
       \<and> (selected_r e = Cancel \<longrightarrow> snd (aicommits a e) = Resolved)"
proof -
  from assms have "\<exists>p. prefix_r e = Value p
       \<and> suffix
           (SelectPrompt Selected (pick_question @ dim e ''(Ctrl+c to exit)'')
              (map (\<lambda>v. SelectOption v v None) ms) None (selected_r e)
            # (case selected_r e of
                 Cancel \<Rightarrow> [Outro ''Commit cancelled'']
               | Value v \<Rightarrow>
                   Execa ''git'' ([''commit'', ''-m'', decorate p v] @ rawArgv a) Pipe (commit_r e)
                   # (case commit_r e of
                        None \<Rightarrow> [Outro (green e check_mark @ committed_message)]
                      | Some err \<Rightarrow> catch_handler e err)))
           (fst (aicommits a e))
       \<and> prompts (fst (aicommits a e)) = [BgInfo, Prefix, Selected]
       \<and> filter is_regenerate (fst (aicommits a e)) = []
       \<and> filter is_commit (fst (aicommits a e))
           = (case selected_r e of
                Cancel \<Rightarrow> []
              | Value v \<Rightarrow>
                  [Execa ''git'' ([''commit'', ''-m'', decorate p v] @ rawArgv a) Pipe
                     (commit_r e)])
       \<and> (selected_r e = Cancel \<longrightarrow> snd (aicommits a e) = Resolved)"
    by (cases a e rule: run_cases;
        auto simp: shape prompts_append prompts_prefix dest: in_prefix generation_in_analyzed)
  then show ?thesis
    unfolding decorate_value .
qed

text \<open>
  Three candidates, the second one picked: with the prefix fix the commit carries the
  bug emoji and \<open>fix: second\<close>, with no prefix it carries \<open>second\<close> as it is; and the
  same pick cancelled.
\<close>

theorem several_candidates_witness:
  "(generated [] (Inr [''first'', ''second'', ''third''])
      \<in> set (fst (aicommits args0 three_with_fix))
    \<and> (1::nat) < length [''first'', ''second'', ''third'']
    \<and> suffix
        [asked_pick (Value ''second''),
         Execa ''git'' [''commit'', ''-m'', bug @ '' fix: second''] Pipe None,
         Outro (check_mark @ committed_message)]
        (fst (aicommits args0 three_with_fix))
    \<and> filter is_commit (fst (aicommits args0 three_with_fix))
        = [Execa ''git'' [''commit'', ''-m'', bug @ '' fix: second''] Pipe None]
    \<and> prompts (fst (aicommits args0 three_with_fix)) = [BgInfo, Prefix, Selected]
    \<and> filter is_regenerate (fst (aicommits args0 three_with_fix)) = [])
   \<and> (generated [] (Inr [''first'', ''second'', ''third''])
      \<in> set (fst (aicommits args0 three_candidates))
      \<and> suffix
          [asked_pick (Value ''second''),
           Execa ''git'' [''commit'', ''-m'', ''second''] Pipe None,
           Outro (check_mark @ committed_message)]
          (fst (aicommits args0 three_candidates))
      \<and> prompts (fst (aicommits args0 three_candidates)) = [BgInfo, Prefix, Selected]
      \<and> filter is_regenerate (fst (aicommits args0 three_candidates)) = [])
   \<and> (generated [] (Inr [''first'', ''second'', ''third''])
      \<in> set (fst (aicommits args0 pick_cancelled))
      \<and> suffix [asked_pick Cancel, Outro ''Commit cancelled'']
          (fst (aicommits args0 pick_cancelled))
      \<and> filter is_commit (fst (aicommits args0 pick_cancelled)) = []
      \<and> snd (aicommits args0 pick_cancelled) = Resolved)"
proof -
  have f: "GenerateCommitMessage () ''+guard'' [] (Inr [''first'', ''second'', ''third''])
      \<in> set (fst (aicommits args0 three_with_fix))"
    by code_simp
  have a: "GenerateCommitMessage () ''+guard'' [] (Inr [''first'', ''second'', ''third''])
      \<in> set (fst (aicommits args0 three_candidates))"
    by code_simp
  have b: "GenerateCommitMessage () ''+guard'' [] (Inr [''first'', ''second'', ''third''])
      \<in> set (fst (aicommits args0 pick_cancelled))"
    by code_simp
  have l: "(1::nat) < length [''first'', ''second'', ''third'']"
    by simp
  from f l several_candidates [OF f l]
  have w1: "generated [] (Inr [''first'', ''second'', ''third''])
      \<in> set (fst (aicommits args0 three_with_fix))
    \<and> (1::nat) < length [''first'', ''second'', ''third'']
    \<and> suffix
        [asked_pick (Value ''second''),
         Execa ''git'' [''commit'', ''-m'', bug @ '' fix: second''] Pipe None,
         Outro (check_mark @ committed_message)]
        (fst (aicommits args0 three_with_fix))
    \<and> filter is_commit (fst (aicommits args0 three_with_fix))
        = [Execa ''git'' [''commit'', ''-m'', bug @ '' fix: second''] Pipe None]
    \<and> prompts (fst (aicommits args0 three_with_fix)) = [BgInfo, Prefix, Selected]
    \<and> filter is_regenerate (fst (aicommits args0 three_with_fix)) = []"
    by (auto simp: sample_defs generated_def asked_pick_def)
  from a l several_candidates [OF a l]
  have w2: "generated [] (Inr [''first'', ''second'', ''third''])
      \<in> set (fst (aicommits args0 three_candidates))
      \<and> suffix
          [asked_pick (Value ''second''),
           Execa ''git'' [''commit'', ''-m'', ''second''] Pipe None,
           Outro (check_mark @ committed_message)]
          (fst (aicommits args0 three_candidates))
      \<and> prompts (fst (aicommits args0 three_candidates)) = [BgInfo, Prefix, Selected]
      \<and> filter is_regenerate (fst (aicommits args0 three_candidates)) = []"
    by (auto simp: sample_defs generated_def asked_pick_def)
  from b l several_candidates [OF b l]
  have w3: "generated [] (Inr [''first'', ''second'', ''third''])
      \<in> set (fst (aicommits args0 pick_cancelled))
      \<and> suffix [asked_pick Cancel, Outro ''Commit cancelled'']
          (fst (aicommits args0 pick_cancelled))
      \<and> filter is_commit (fst (aicommits args0 pick_cancelled)) = []
      \<and> snd (aicommits args0 pick_cancelled) = Resolved"
    by (auto simp: sample_defs generated_def asked_pick_def)
  from w1 w2 w3 show ?thesis
    by blast
qed

text \<open>
  C6, as the claim states it: when the generator returns no candidate, the error is
  raised before any prompt is shown. This fails: the note and the prefix are asked
  before the generator is called at all. In the sample run where the generator returns
  the empty list, the process exits with code 1 through the handler, with the message
  of the empty generation, and two prompts were shown.
\<close>

theorem empty_generation_after_prompts:
  "generateCommitMessage_r no_candidates = Inr []
   \<and> snd (aicommits args0 no_candidates) = Exit 1
   \<and> suffix (catch_handler no_candidates (KnownError no_messages_message))
        (fst (aicommits args0 no_candidates))
   \<and> prompts (fst (aicommits args0 no_candidates)) = [BgInfo, Prefix]"
  by code_simp

text \<open>
  C6, amended: when the generator returns no candidate, the analyzing spinner is
  stopped and the \<open>KnownError\<close> \<open>No commit messages were generated. Try again.\<close> goes
  to the handler, which ends the run with exit code 1. The only prompts of the run are
  the note and the prefix, both asked before the generator was called: neither the
  confirmation nor the pick is shown, and nothing is committed.
\<close>

theorem empty_generation:
  assumes "GenerateCommitMessage c d i (Inr []) \<in> set (fst (aicommits a e))"
  shows "suffix
           ([GenerateCommitMessage c d i (Inr []), SpinnerStop S ''Changes analyzed'']
            @ catch_handler e (KnownError no_messages_message))
           (fst (aicommits a e))
       \<and> prompts (fst (aicommits a e)) = [BgInfo, Prefix]
       \<and> filter is_selection_prompt (fst (aicommits a e)) = []
       \<and> filter is_commit (fst (aicommits a e)) = []
       \<and> snd (aicommits a e) = Exit 1
       \<and> exit_code (snd (aicommits a e)) = 1"
  using assms
  by (cases a e rule: run_cases;
      auto simp: shape prompts_append prompts_prefix analyzed_def dest: in_prefix)

text \<open>
  The sample run where the generator returns the empty list.
\<close>

theorem empty_generation_witness:
  "generated [] (Inr []) \<in> set (fst (aicommits args0 no_candidates))
   \<and> suffix
       [generated [] (Inr []), SpinnerStop S ''Changes analyzed'',
        Outro (cross_mark @ '' '' @ no_messages_message),
        HandleCliError (KnownError no_messages_message)]
       (fst (aicommits args0 no_candidates))
   \<and> prompts (fst (aicommits args0 no_candidates)) = [BgInfo, Prefix]
   \<and> filter is_selection_prompt (fst (aicommits args0 no_candidates)) = []
   \<and> filter is_commit (fst (aicommits args0 no_candidates)) = []
   \<and> exit_code (snd (aicommits args0 no_candidates)) = 1"
proof -
  have a: "GenerateCommitMessage () ''+guard'' [] (Inr [])
      \<in> set (fst (aicommits args0 no_candidates))"
    by code_simp
  from a empty_generation [OF a] show ?thesis
    by (simp add: sample_defs generated_def catch_handler_def)
qed

text \<open>
  C7. Whenever the detector of staged changes finds no diff, the first spinner is
  stopped and the \<open>KnownError\<close> whose message tells the user to stage the changes by
  hand or to pass \<open>--all\<close> goes to the handler: the process exits with code 1, no
  prompt was shown and nothing is committed. Without the flag that stages everything,
  the whole run is the seven events listed.
\<close>

theorem no_staged_changes:
  assumes "GetStagedDiff x (Inr None) \<in> set (fst (aicommits a e))"
  shows "suffix
           ([GetStagedDiff x (Inr None), SpinnerStop DetectingFiles detecting_message]
            @ catch_handler e (KnownError no_staged_message))
           (fst (aicommits a e))
       \<and> snd (aicommits a e) = Exit 1
       \<and> exit_code (snd (aicommits a e)) = 1
       \<and> filter is_commit (fst (aicommits a e)) = []
       \<and> prompts (fst (aicommits a e)) = []
       \<and> (\<not> stageAll a \<longrightarrow>
            fst (aicommits a e) =
              [Intro (bgCyan e (black e '' aicommits '')), AssertGitRepo None,
               SpinnerStart DetectingFiles detecting_message,
               GetStagedDiff (excludeFiles a) (Inr None),
               SpinnerStop DetectingFiles detecting_message,
               Outro (red e cross_mark @ '' '' @ no_staged_message),
               HandleCliError (KnownError no_staged_message)])"
  using assms
  by (cases a e rule: run_cases;
      auto simp: shape prompts_append prompts_prefix analyzed_def started_def dest: in_prefix)

text \<open>
  The sample run with nothing staged and without the flag.
\<close>

theorem no_staged_changes_witness:
  "GetStagedDiff [] (Inr None) \<in> set (fst (aicommits args0 nothing_staged))
   \<and> \<not> stageAll args0
   \<and> fst (aicommits args0 nothing_staged) =
       [Intro '' aicommits '', AssertGitRepo None,
        SpinnerStart DetectingFiles detecting_message,
        GetStagedDiff [] (Inr None),
        SpinnerStop DetectingFiles detecting_message,
        Outro (cross_mark @ '' '' @ no_staged_message),
        HandleCliError (KnownError no_staged_message)]
   \<and> exit_code (snd (aicommits args0 nothing_staged)) = 1
   \<and> filter is_commit (fst (aicommits args0 nothing_staged)) = []
   \<and> prompts (fst (aicommits args0 nothing_staged)) = []"
proof -
  have a: "GetStagedDiff [] (Inr None) \<in> set (fst (aicommits args0 nothing_staged))"
    by code_simp
  have b: "\<not> stageAll args0"
    by (simp add: args0_def)
  from a b no_staged_changes [OF a] show ?thesis
    by (simp add: sample_defs)
qed

text \<open>
  C8. Exit codes. A run whose commit succeeded ends with the message of success and
  exit code 0; a run with a cancelled prompt ends with exit code 0. A run in which a
  call rejected (git, the configuration, the generator, the re-spawned child, the
  commit), or the detector found nothing, or the generator returned nothing, ends
  through the one handler: its last two events are the failure line with the message of
  that error and the call of \<open>handleCliError\<close>, the exit code is 1, and no
  collaborator is called and no prompt is shown after the failing call. The exit code
  is 1 exactly in those runs and 0 in all others. Nothing is retried: the detector, the
  generator, the commit and the re-spawn each happen at most once, and the re-spawn
  only in a run where the user chose \<open>No, regenerate\<close>.
\<close>

theorem exit_codes:
  "(let t = fst (aicommits a e); r = snd (aicommits a e) in
     (ev \<in> set t \<and> is_commit ev \<and> rejected ev = None \<longrightarrow>
        r = Resolved \<and> exit_code r = 0
        \<and> suffix [ev, Outro (green e check_mark @ committed_message)] t)
     \<and> (ev \<in> set t \<and> cancelled ev \<longrightarrow> r = Resolved \<and> exit_code r = 0)
     \<and> (ev \<in> set t \<and> raised ev = Some err \<longrightarrow>
          r = Exit 1 \<and> exit_code r = 1
          \<and> suffix [Outro (red e cross_mark @ '' '' @ message err), HandleCliError err] t
          \<and> filter is_operation (tl (from_event ev t)) = [])
     \<and> exit_code r = (if \<exists>x \<in> set t. raised x \<noteq> None then 1 else 0)
     \<and> length (filter is_detection t) \<le> 1
     \<and> length (filter is_generation t) \<le> 1
     \<and> length (filter is_commit t) \<le> 1
     \<and> length (filter is_regenerate t) \<le> 1
     \<and> (ev \<in> set t \<and> is_regenerate ev \<longrightarrow> (\<exists>x \<in> set t. chose_regenerate x)))"
  by (cases a e rule: run_cases;
      auto simp: Let_def shape from_event_simps from_event_append raised_not_in_prefix
        once_in_prefix silent_prefix analyzed_def
      dest: in_prefix split: if_splits)

text \<open>
  The sample runs: a commit, a refusal, and each of the four failures the claim names;
  and the re-spawn after the choice to regenerate.
\<close>

theorem exit_codes_witness:
  "(Execa ''git'' [''commit'', ''-m'', bug @ '' fix: add login guard''] Pipe None
      \<in> set (fst (aicommits args0 env0))
    \<and> exit_code (snd (aicommits args0 env0)) = 0)
   \<and> (asked_confirmation (Value ''cancel'') \<in> set (fst (aicommits args0 confirm_refused))
      \<and> exit_code (snd (aicommits args0 confirm_refused)) = 0)
   \<and> (GetStagedDiff [] (Inr None) \<in> set (fst (aicommits args0 nothing_staged))
      \<and> exit_code (snd (aicommits args0 nothing_staged)) = 1
      \<and> suffix [Outro (cross_mark @ '' '' @ no_staged_message),
                HandleCliError (KnownError no_staged_message)]
          (fst (aicommits args0 nothing_staged)))
   \<and> (generated [] (Inr []) \<in> set (fst (aicommits args0 no_candidates))
      \<and> exit_code (snd (aicommits args0 no_candidates)) = 1
      \<and> suffix [Outro (cross_mark @ '' '' @ no_messages_message),
                HandleCliError (KnownError no_messages_message)]
          (fst (aicommits args0 no_candidates)))
   \<and> (generated [] (Inl (Error ''timeout'')) \<in> set (fst (aicommits args0 generation_timeout))
      \<and> exit_code (snd (aicommits args0 generation_timeout)) = 1
      \<and> suffix [Outro (cross_mark @ '' timeout''), HandleCliError (Error ''timeout'')]
          (fst (aicommits args0 generation_timeout)))
   \<and> (Execa ''git'' [''commit'', ''-m'', bug @ '' fix: add login guard''] Pipe
        (Some (Error ''hook failed''))
        \<in> set (fst (aicommits args0 commit_rejected))
      \<and> exit_code (snd (aicommits args0 commit_rejected)) = 1
      \<and> suffix [Outro (cross_mark @ '' hook failed''), HandleCliError (Error ''hook failed'')]
          (fst (aicommits args0 commit_rejected)))
   \<and> (Execa ''aim'' [] Inherit None \<in> set (fst (aicommits args0 confirm_regenerate))
      \<and> (\<exists>x \<in> set (fst (aicommits args0 confirm_regenerate)). chose_regenerate x))"
proof -
  let ?commit = "Execa ''git'' [''commit'', ''-m'', bug @ '' fix: add login guard''] Pipe"
  have a: "?commit None \<in> set (fst (aicommits args0 env0))"
    by code_simp
  have b: "asked_confirmation (Value ''cancel'') \<in> set (fst (aicommits args0 confirm_refused))"
    by code_simp
  have c: "GetStagedDiff [] (Inr None) \<in> set (fst (aicommits args0 nothing_staged))"
    by code_simp
  have d: "generated [] (Inr []) \<in> set (fst (aicommits args0 no_candidates))"
    by code_simp
  have f: "generated [] (Inl (Error ''timeout'')) \<in> set (fst (aicommits args0 generation_timeout))"
    by code_simp
  have g: "?commit (Some (Error ''hook failed'')) \<in> set (fst (aicommits args0 commit_rejected))"
    by code_simp
  have h: "Execa ''aim'' [] Inherit None \<in> set (fst (aicommits args0 confirm_regenerate))"
    by code_simp
  from a exit_codes [of args0 env0 "?commit None"]
  have a': "exit_code (snd (aicommits args0 env0)) = 0"
    by (simp add: Let_def)
  from b exit_codes [of args0 confirm_refused "asked_confirmation (Value ''cancel'')"]
  have b': "exit_code (snd (aicommits args0 confirm_refused)) = 0"
    by (simp add: Let_def asked_confirmation_def)
  from c exit_codes [of args0 nothing_staged "GetStagedDiff [] (Inr None)"
      "KnownError no_staged_message"]
  have c': "exit_code (snd (aicommits args0 nothing_staged)) = 1
      \<and> suffix [Outro (cross_mark @ '' '' @ no_staged_message),
                HandleCliError (KnownError no_staged_message)]
          (fst (aicommits args0 nothing_staged))"
    by (simp add: Let_def sample_defs)
  from d exit_codes [of args0 no_candidates "generated [] (Inr [])"
      "KnownError no_messages_message"]
  have d': "exit_code (snd (aicommits args0 no_candidates)) = 1
      \<and> suffix [Outro (cross_mark @ '' '' @ no_messages_message),
                HandleCliError (KnownError no_messages_message)]
          (fst (aicommits args0 no_candidates))"
    by (simp add: Let_def sample_defs generated_def)
  from f exit_codes [of args0 generation_timeout "generated [] (Inl (Error ''timeout''))"
      "Error ''timeout''"]
  have f': "exit_code (snd (aicommits args0 generation_timeout)) = 1
      \<and> suffix [Outro (cross_mark @ '' timeout''), HandleCliError (Error ''timeout'')]
          (fst (aicommits args0 generation_timeout))"
    by (simp add: Let_def sample_defs generated_def)
  from g exit_codes [of args0 commit_rejected "?commit (Some (Error ''hook failed''))"
      "Error ''hook failed''"]
  have g': "exit_code (snd (aicommits args0 commit_rejected)) = 1
      \<and> suffix [Outro (cross_mark @ '' hook failed''), HandleCliError (Error ''hook failed'')]
          (fst (aicommits args0 commit_rejected))"
    by (simp add: Let_def sample_defs)
  from h exit_codes [of args0 confirm_regenerate "Execa ''aim'' [] Inherit None"]
  have h': "\<exists>x \<in> set (fst (aicommits args0 confirm_regenerate)). chose_regenerate x"
    by (simp add: Let_def)
  from a a' b b' c c' d d' f f' g g' h h' show ?thesis
    by blast
qed

text \<open>
  C9. Whenever the analyzing spinner is started, the next event is the call of the
  generator and the one after it is the stop of that spinner, whatever the call gave
  back. When the call rejects, the stop is followed by the handler alone: the process
  exits with code 1, neither the confirmation nor the pick is ever shown, and nothing
  is committed.
\<close>

theorem analyzing_spinner:
  "(SpinnerStart S m \<in> set (fst (aicommits a e)) \<longrightarrow>
      (\<exists>c d i. take 3 (from_event (SpinnerStart S m) (fst (aicommits a e)))
         = [SpinnerStart S m, GenerateCommitMessage c d i (generateCommitMessage_r e),
            SpinnerStop S ''Changes analyzed'']))
   \<and> (GenerateCommitMessage c d i (Inl err) \<in> set (fst (aicommits a e)) \<longrightarrow>
        suffix
          ([GenerateCommitMessage c d i (Inl err), SpinnerStop S ''Changes analyzed'']
           @ catch_handler e err)
          (fst (aicommits a e))
        \<and> snd (aicommits a e) = Exit 1
        \<and> exit_code (snd (aicommits a e)) = 1
        \<and> filter is_selection_prompt (fst (aicommits a e)) = []
        \<and> filter is_commit (fst (aicommits a e)) = [])"
  by (cases a e rule: run_cases;
      auto simp: shape from_event_simps from_event_append spinner_not_in_prefixed analyzed_def
      dest: in_prefix)

text \<open>
  The sample run that commits, and the one where the generator times out.
\<close>

theorem analyzing_spinner_witness:
  "SpinnerStart S analyzing_message \<in> set (fst (aicommits args0 env0))
   \<and> take 3 (from_event (SpinnerStart S analyzing_message) (fst (aicommits args0 env0)))
       = [SpinnerStart S analyzing_message, generated [] (Inr [''add login guard'']),
          SpinnerStop S ''Changes analyzed'']
   \<and> generated [] (Inl (Error ''timeout'')) \<in> set (fst (aicommits args0 generation_timeout))
   \<and> suffix
       [generated [] (Inl (Error ''timeout'')), SpinnerStop S ''Changes analyzed'',
        Outro (cross_mark @ '' timeout''), HandleCliError (Error ''timeout'')]
       (fst (aicommits args0 generation_timeout))
   \<and> exit_code (snd (aicommits args0 generation_timeout)) = 1
   \<and> filter is_selection_prompt (fst (aicommits args0 generation_timeout)) = []
   \<and> filter is_commit (fst (aicommits args0 generation_timeout)) = []"
proof -
  have a: "SpinnerStart S analyzing_message \<in> set (fst (aicommits args0 env0))"
    by code_simp
  have b: "GenerateCommitMessage () ''+guard'' [] (Inl (Error ''timeout''))
      \<in> set (fst (aicommits args0 generation_timeout))"
    by code_simp
  have started: "take 3 (from_event (SpinnerStart S analyzing_message) (fst (aicommits args0 env0)))
       = [SpinnerStart S analyzing_message, generated [] (Inr [''add login guard'']),
          SpinnerStop S ''Changes analyzed'']"
    by code_simp
  from a b started
    analyzing_spinner [of analyzing_message args0 env0 "()" "''+guard''" "[]" "Error ''timeout''"]
    analyzing_spinner [of analyzing_message args0 generation_timeout "()" "''+guard''" "[]"
      "Error ''timeout''"]
  show ?thesis
    by (simp add: generated_def catch_handler_def sample_defs)
qed

text \<open>
  C10. The instruction string that the generator receives is decided by the note and
  the prefix the user gave. With an empty note it is the empty string when the prefix is
  not entrust (no line \<open>Background information provided from user:\<close>), and a newline
  followed by the directive when the prefix is entrust. In general the directive, after
  a newline, is appended to the text of the note, empty or not, exactly when the prefix
  is entrust.
\<close>

theorem generator_instruction:
  assumes "GenerateCommitMessage c d i r \<in> set (fst (aicommits a e))"
  shows "\<exists>info p. bgInfo_r e = Value info \<and> prefix_r e = Value p
       \<and> i = (if p = Entrust
              then (if info = [] then [] else background_label @ info) @ newline @ directive
              else (if info = [] then [] else background_label @ info))
       \<and> (info = [] \<longrightarrow> i = (if p = Entrust then newline @ directive else []))"
proof -
  from assms obtain info p where
    answered: "bgInfo_r e = Value info" and prefix: "prefix_r e = Value p"
    and i: "i = instruction info p"
    by (cases a e rule: run_cases;
        auto simp: catch_handler_def dest: in_prefix generation_in_analyzed)
  have "info = [] \<longrightarrow> i = (if p = Entrust then newline @ directive else [])"
    unfolding i instruction_value by simp
  with answered prefix i [unfolded instruction_value] show ?thesis
    by (intro exI conjI)
qed

text \<open>
  An empty note with the prefix fix, and with entrust.
\<close>

theorem generator_instruction_witness:
  "generated [] (Inr [''add login guard'']) \<in> set (fst (aicommits args0 env0))
   \<and> bgInfo_r env0 = Value [] \<and> prefix_r env0 = Value Fix
   \<and> generated (newline @ directive) (Inr [''add login guard''])
      \<in> set (fst (aicommits args0 entrusted))
   \<and> bgInfo_r entrusted = Value [] \<and> prefix_r entrusted = Value Entrust"
proof -
  have a: "GenerateCommitMessage () ''+guard'' [] (Inr [''add login guard''])
      \<in> set (fst (aicommits args0 env0))"
    by code_simp
  have b: "GenerateCommitMessage () ''+guard'' (newline @ directive) (Inr [''add login guard''])
      \<in> set (fst (aicommits args0 entrusted))"
    by code_simp
  from a b generator_instruction [OF a] generator_instruction [OF b] show ?thesis
    by (auto simp: generated_def sample_defs)
qed

end
